theory Spec2Isabelle
  imports Main
begin

section \<open>Bytes, runes and the UTF-8 decoder used by the byte-trimming helpers\<close>

text \<open>
  A Go \<^verbatim>\<open>[]byte\<close> or \<^verbatim>\<open>string\<close> is a finite sequence of bytes: a \<^typ>\<open>string\<close>
  (a list of 8-bit characters). A byte is read as a number with \<^term>\<open>of_char\<close>; a rune
  is a natural number (every rune computed here is below \<open>2^21\<close>, so \<^verbatim>\<open>int32\<close> never
  wraps). Masks \<^verbatim>\<open>b & (2^k - 1)\<close> are written \<open>b mod 2^k\<close>, shifts \<^verbatim>\<open><< k\<close> as
  multiplication by \<open>2^k\<close>, and the bitwise \<^verbatim>\<open>|\<close> of fields that do not overlap as \<open>+\<close>.
\<close>

type_synonym bytes = string

abbreviation byte :: "char \<Rightarrow> nat" where
  "byte c \<equiv> of_char c"

datatype 'a run = Panic | Return 'a

definition RuneError :: nat where "RuneError = 0xFFFD"
definition RuneSelf :: nat where "RuneSelf = 0x80"
definition UTFMax :: nat where "UTFMax = 4"

definition locb :: nat where "locb = 0x80"
definition hicb :: nat where "hicb = 0xBF"

definition t_xx :: nat where "t_xx = 0xF1"
definition t_as :: nat where "t_as = 0xF0"
definition t_s1 :: nat where "t_s1 = 0x02"
definition t_s2 :: nat where "t_s2 = 0x13"
definition t_s3 :: nat where "t_s3 = 0x03"
definition t_s4 :: nat where "t_s4 = 0x23"
definition t_s5 :: nat where "t_s5 = 0x34"
definition t_s6 :: nat where "t_s6 = 0x04"
definition t_s7 :: nat where "t_s7 = 0x44"

text \<open>The table \<^verbatim>\<open>utf8.first\<close>: information about the first byte of a sequence.\<close>

definition utf8_first :: "nat \<Rightarrow> nat" where
  "utf8_first b =
     (if b < 0x80 then t_as
      else if b < 0xC2 then t_xx
      else if b < 0xE0 then t_s1
      else if b = 0xE0 then t_s2
      else if b < 0xED then t_s3
      else if b = 0xED then t_s4
      else if b < 0xF0 then t_s3
      else if b = 0xF0 then t_s5
      else if b < 0xF4 then t_s6
      else if b = 0xF4 then t_s7
      else t_xx)"

text \<open>The table \<^verbatim>\<open>utf8.acceptRanges\<close>: the range allowed for the second byte.\<close>

definition acceptRanges :: "nat \<Rightarrow> nat \<times> nat" where
  "acceptRanges i =
     (if i = 0 then (locb, hicb)
      else if i = 1 then (0xA0, hicb)
      else if i = 2 then (locb, 0x9F)
      else if i = 3 then (0x90, hicb)
      else if i = 4 then (locb, 0x8F)
      else (0, 0))"

text \<open>\<^verbatim>\<open>utf8.DecodeRune\<close>: the first rune of \<open>p\<close> and its width in bytes.\<close>

definition DecodeRune :: "bytes \<Rightarrow> nat \<times> nat" where
  "DecodeRune p =
     (let n = length p in
      if n < 1 then (RuneError, 0)
      else
        let p0 = byte (p ! 0); x = utf8_first p0 in
        if t_as \<le> x then ((if x = t_xx then RuneError else p0), 1)
        else
          let sz = x mod 8; accept = acceptRanges (x div 16) in
          if n < sz then (RuneError, 1)
          else
            let b1 = byte (p ! 1) in
            if b1 < fst accept \<or> snd accept < b1 then (RuneError, 1)
            else if sz \<le> 2 then ((p0 mod 32) * 64 + b1 mod 64, 2)
            else
              let b2 = byte (p ! 2) in
              if b2 < locb \<or> hicb < b2 then (RuneError, 1)
              else if sz \<le> 3 then ((p0 mod 16) * 4096 + (b1 mod 64) * 64 + b2 mod 64, 3)
              else
                let b3 = byte (p ! 3) in
                if b3 < locb \<or> hicb < b3 then (RuneError, 1)
                else ((p0 mod 8) * 262144 + (b1 mod 64) * 4096 + (b2 mod 64) * 64 + b3 mod 64, 4))"

text \<open>\<^verbatim>\<open>utf8.RuneStart\<close>: the byte is not a continuation byte \<^verbatim>\<open>10xxxxxx\<close>.\<close>

definition RuneStart :: "nat \<Rightarrow> bool" where
  "RuneStart b = (\<not> (0x80 \<le> b \<and> b < 0xC0))"

text \<open>
  The backward scan of \<^verbatim>\<open>utf8.DecodeLastRune\<close>:
  \<^verbatim>\<open>for start--; start >= lim; start-- { if RuneStart(p[start]) { break } }\<close>,
  entered after the first decrement.
\<close>

function scan_start :: "bytes \<Rightarrow> int \<Rightarrow> int \<Rightarrow> int" where
  "scan_start p lim start =
     (if lim \<le> start
      then (if RuneStart (byte (p ! nat start)) then start else scan_start p lim (start - 1))
      else start)"
  by pat_completeness auto
termination
  by (relation "measure (\<lambda>(p, lim, start). nat (start - lim + 1))") auto

declare scan_start.simps [simp del]

text \<open>\<^verbatim>\<open>utf8.DecodeLastRune\<close>: the last rune of \<open>p\<close> and its width.\<close>

definition DecodeLastRune :: "bytes \<Rightarrow> nat \<times> nat" where
  "DecodeLastRune p =
     (let end = length p in
      if end = 0 then (RuneError, 0)
      else
        let r = byte (p ! (end - 1)) in
        if r < RuneSelf then (r, 1)
        else
          let lim = max 0 (int end - int UTFMax);
              start0 = scan_start p lim (int end - 2);
              start = nat (if start0 < 0 then 0 else start0);
              (r', size) = DecodeRune (drop start p)
          in if start + size \<noteq> end then (RuneError, 1) else (r', size))"

text \<open>\<^verbatim>\<open>unicode.IsSpace\<close>: the Latin-1 switch, then the White_Space range table.\<close>

definition IsSpace :: "nat \<Rightarrow> bool" where
  "IsSpace r =
     (if r \<le> 0xFF
      then r = 0x09 \<or> r = 0x0A \<or> r = 0x0B \<or> r = 0x0C \<or> r = 0x0D \<or> r = 0x20
           \<or> r = 0x85 \<or> r = 0xA0
      else r = 0x1680 \<or> (0x2000 \<le> r \<and> r \<le> 0x200A) \<or> r = 0x2028 \<or> r = 0x2029
           \<or> r = 0x202F \<or> r = 0x205F \<or> r = 0x3000)"

text \<open>The table \<^verbatim>\<open>asciiSpace\<close> of package \<^verbatim>\<open>bytes\<close>.\<close>

definition asciiSpace :: "nat \<Rightarrow> bool" where
  "asciiSpace c = (c = 0x09 \<or> c = 0x0A \<or> c = 0x0B \<or> c = 0x0C \<or> c = 0x0D \<or> c = 0x20)"

lemma DecodeRune_size_pos: "p \<noteq> [] \<Longrightarrow> 1 \<le> snd (DecodeRune p)"
  by (cases p) (simp_all add: DecodeRune_def Let_def)

lemma scan_start_le: "scan_start p lim start \<le> start"
proof (induction p lim start rule: scan_start.induct)
  case (1 p lim start)
  then show ?case
    by (subst scan_start.simps) (auto split: if_splits)
qed

lemma DecodeLastRune_size_pos:
  assumes "p \<noteq> []"
  shows "1 \<le> snd (DecodeLastRune p)"
proof -
  define s0 where "s0 = scan_start p (max 0 (int (length p) - int UTFMax)) (int (length p) - 2)"
  define start where "start = nat (if s0 < 0 then 0 else s0)"
  have "s0 \<le> int (length p) - 2"
    unfolding s0_def by (rule scan_start_le)
  with assms have "start < length p"
    by (cases p) (auto simp add: start_def)
  then have "1 \<le> snd (DecodeRune (drop start p))"
    by (intro DecodeRune_size_pos) simp
  moreover obtain r' size where d: "DecodeRune (drop start p) = (r', size)"
    by force
  moreover have "DecodeLastRune p =
      (if byte (p ! (length p - 1)) < RuneSelf then (byte (p ! (length p - 1)), 1)
       else if start + size \<noteq> length p then (RuneError, 1) else (r', size))"
    using assms d unfolding DecodeLastRune_def Let_def s0_def [symmetric] start_def [symmetric]
    by simp
  ultimately show ?thesis
    by simp
qed

text \<open>
  \<^verbatim>\<open>bytes.indexFunc\<close>: the index of the first rune \<open>r\<close> with \<open>f r = truth\<close>, or \<open>-1\<close>.
  The loop variable is \<open>start\<close>.
\<close>

function indexFunc_loop :: "bytes \<Rightarrow> (nat \<Rightarrow> bool) \<Rightarrow> bool \<Rightarrow> nat \<Rightarrow> int" where
  "indexFunc_loop s f truth start =
     (if start < length s
      then
        (let rw = (if RuneSelf \<le> byte (s ! start) then DecodeRune (drop start s)
                   else (byte (s ! start), 1))
         in if f (fst rw) = truth then int start
            else indexFunc_loop s f truth (start + snd rw))
      else - 1)"
  by pat_completeness auto
termination
proof (relation "measure (\<lambda>(s, f, truth, start). length s - start)", goal_cases)
  case 1
  show ?case by simp
next
  case (2 s f truth start rw)
  have "1 \<le> snd (DecodeRune (drop start s))"
    using 2(1) by (intro DecodeRune_size_pos) simp
  with 2 show ?case by (auto split: if_splits)
qed

declare indexFunc_loop.simps [simp del]

definition indexFunc :: "bytes \<Rightarrow> (nat \<Rightarrow> bool) \<Rightarrow> bool \<Rightarrow> int" where
  "indexFunc s f truth = indexFunc_loop s f truth 0"

text \<open>
  \<^verbatim>\<open>bytes.lastIndexFunc\<close>: the loop variable \<open>i\<close> runs down from \<open>len(s)\<close>; the index is
  decremented by the rune's width before the test. The loop only ever holds
  \<open>i \<le> len(s)\<close> (it starts there and decreases); the guard states it, so that the
  recursion is total for every argument.
\<close>

function lastIndexFunc_loop :: "bytes \<Rightarrow> (nat \<Rightarrow> bool) \<Rightarrow> bool \<Rightarrow> nat \<Rightarrow> int" where
  "lastIndexFunc_loop s f truth i =
     (if 0 < i \<and> i \<le> length s
      then
        (let rw = (if RuneSelf \<le> byte (s ! (i - 1)) then DecodeLastRune (take i s)
                   else (byte (s ! (i - 1)), 1));
             i' = i - snd rw
         in if f (fst rw) = truth then int i'
            else lastIndexFunc_loop s f truth i')
      else - 1)"
  by pat_completeness auto
termination
proof (relation "measure (\<lambda>(s, f, truth, i). i)", goal_cases)
  case 1
  show ?case by simp
next
  case (2 s f truth i rw i')
  then have "take i s \<noteq> []" by auto
  then have "1 \<le> snd (DecodeLastRune (take i s))"
    by (rule DecodeLastRune_size_pos)
  with 2 show ?case by (auto split: if_splits)
qed

declare lastIndexFunc_loop.simps [simp del]

definition lastIndexFunc :: "bytes \<Rightarrow> (nat \<Rightarrow> bool) \<Rightarrow> bool \<Rightarrow> int" where
  "lastIndexFunc s f truth = lastIndexFunc_loop s f truth (length s)"

text \<open>\<^verbatim>\<open>bytes.TrimLeftFunc\<close>, \<^verbatim>\<open>bytes.TrimRightFunc\<close>, \<^verbatim>\<open>bytes.TrimFunc\<close>
  (a nil slice and an empty slice are both \<open>[]\<close>).\<close>

definition TrimLeftFunc :: "bytes \<Rightarrow> (nat \<Rightarrow> bool) \<Rightarrow> bytes" where
  "TrimLeftFunc s f = (let i = indexFunc s f False in if i = - 1 then [] else drop (nat i) s)"

definition TrimRightFunc :: "bytes \<Rightarrow> (nat \<Rightarrow> bool) \<Rightarrow> bytes" where
  "TrimRightFunc s f =
     (let i = lastIndexFunc s f False;
          j = (if 0 \<le> i \<and> RuneSelf \<le> byte (s ! nat i)
               then i + int (snd (DecodeRune (drop (nat i) s)))
               else i + 1)
      in take (nat j) s)"

definition TrimFunc :: "bytes \<Rightarrow> (nat \<Rightarrow> bool) \<Rightarrow> bytes" where
  "TrimFunc s f = TrimRightFunc (TrimLeftFunc s f) f"

text \<open>
  \<^verbatim>\<open>bytes.TrimSpace\<close>. Its two ASCII fast-path loops either return early through
  \<^verbatim>\<open>TrimFunc\<close> on meeting a byte \<^verbatim>\<open>>= RuneSelf\<close> (\<open>Inl\<close> the returned slice) or finish with
  the loop index (\<open>Inr\<close>).
\<close>

function TrimSpace_left :: "bytes \<Rightarrow> nat \<Rightarrow> bytes + nat" where
  "TrimSpace_left s start =
     (if start < length s
      then
        (let c = byte (s ! start) in
         if RuneSelf \<le> c then Inl (TrimFunc (drop start s) IsSpace)
         else if \<not> asciiSpace c then Inr start
         else TrimSpace_left s (start + 1))
      else Inr start)"
  by pat_completeness auto
termination
  by (relation "measure (\<lambda>(s, start). length s - start)") auto

declare TrimSpace_left.simps [simp del]

function TrimSpace_right :: "bytes \<Rightarrow> nat \<Rightarrow> nat \<Rightarrow> bytes + nat" where
  "TrimSpace_right s start stop =
     (if start < stop
      then
        (let c = byte (s ! (stop - 1)) in
         if RuneSelf \<le> c then Inl (TrimFunc (take (stop - start) (drop start s)) IsSpace)
         else if \<not> asciiSpace c then Inr stop
         else TrimSpace_right s start (stop - 1))
      else Inr stop)"
  by pat_completeness auto
termination
  by (relation "measure (\<lambda>(s, start, stop). stop)") auto

declare TrimSpace_right.simps [simp del]

definition TrimSpace :: "bytes \<Rightarrow> bytes" where
  "TrimSpace s =
     (case TrimSpace_left s 0 of
        Inl r \<Rightarrow> r
      | Inr start \<Rightarrow>
          (case TrimSpace_right s start (length s) of
             Inl r \<Rightarrow> r
           | Inr stop \<Rightarrow> if start = stop then [] else take (stop - start) (drop start s)))"

text \<open>
  The property that the frame codec's specification asks of the remainder of a heartbeat
  or open frame: it holds nothing but white space. \<open>first_rune\<close> reads the first rune of
  a non-empty byte sequence and its width (a byte below \<^verbatim>\<open>RuneSelf\<close> is its own rune),
  and \<open>white_space_only\<close> holds when every rune read this way, left to right, satisfies
  \<^verbatim>\<open>unicode.IsSpace\<close>.
\<close>

definition first_rune :: "bytes \<Rightarrow> nat \<times> nat" where
  "first_rune s = (if RuneSelf \<le> byte (s ! 0) then DecodeRune s else (byte (s ! 0), 1))"

lemma first_rune_pos: "s \<noteq> [] \<Longrightarrow> 1 \<le> snd (first_rune s)"
  using DecodeRune_size_pos [of s] by (simp add: first_rune_def)

function white_space_only :: "bytes \<Rightarrow> bool" where
  "white_space_only s =
     (if s = [] then True
      else if IsSpace (fst (first_rune s)) then white_space_only (drop (snd (first_rune s)) s)
      else False)"
  by pat_completeness auto
termination
proof (relation "measure length", goal_cases)
  case 1
  show ?case by simp
next
  case (2 s)
  then have "1 \<le> snd (first_rune s)" by (intro first_rune_pos)
  with 2 show ?case by (cases s) auto
qed

declare white_space_only.simps [simp del]

section \<open>Errors\<close>

text \<open>
  The sentinel errors of the package, and the errors built around them with
  \<^verbatim>\<open>fmt.Errorf("%w ...")\<close>: one constructor per call site, holding what the format
  embeds. \<open>'v\<close> is the type of decoded JSON values, \<open>'x\<close> the type of the errors of the
  libraries underneath (network, websocket, HTTP).
\<close>

datatype sentinel =
    ErrClosedConnection | ErrClosedByRemote | ErrClosingConnection | ErrInvalidResponse
  | ErrUnexpectedResponse | ErrNoHeartbeat
  | ErrClientNotConnected | ErrClientCannotConnect | ErrClientCannotDecode

datatype ('v, 'x) error =
    Err sentinel
  | ClosedByRemoteData 'v 'v
  | ClosedByRemoteNoData
  | UnknownMessageType char
  | OpeningSession
  | NoCloseFrame "'x option"
  | ClosedConnectionCause 'x
  | ClosingConnectionCause 'x
  | UnexpectedHTTP int
  | NoAddressProvided
  | NoServerIDProvided
  | NoSessionIDProvided
  | CannotConnectInfo 'x
  | CannotConnectWsXhr "('v, 'x) error" "('v, 'x) error"
  | CannotConnectXhr "('v, 'x) error"
  | External 'x

text \<open>\<^verbatim>\<open>errors.Is(err, target)\<close> for a sentinel target: the chain of \<^verbatim>\<open>%w\<close>.\<close>

fun wraps :: "('v, 'x) error \<Rightarrow> sentinel option" where
  "wraps (Err s) = Some s"
| "wraps (ClosedByRemoteData a b) = Some ErrClosedByRemote"
| "wraps ClosedByRemoteNoData = Some ErrClosedByRemote"
| "wraps (UnknownMessageType c) = Some ErrInvalidResponse"
| "wraps OpeningSession = Some ErrInvalidResponse"
| "wraps (NoCloseFrame e) = Some ErrClosedConnection"
| "wraps (ClosedConnectionCause e) = Some ErrClosedConnection"
| "wraps (ClosingConnectionCause e) = Some ErrClosingConnection"
| "wraps (UnexpectedHTTP n) = Some ErrUnexpectedResponse"
| "wraps NoAddressProvided = None"
| "wraps NoServerIDProvided = None"
| "wraps NoSessionIDProvided = None"
| "wraps (CannotConnectInfo e) = Some ErrClientCannotConnect"
| "wraps (CannotConnectWsXhr e1 e2) = Some ErrClientCannotConnect"
| "wraps (CannotConnectXhr e) = Some ErrClientCannotConnect"
| "wraps (External e) = None"

definition errors_Is :: "('v, 'x) error \<Rightarrow> sentinel \<Rightarrow> bool" where
  "errors_Is e s = (wraps e = Some s)"

section \<open>The frame codec (conn.go)\<close>

datatype MessageType =
    MessageTypeUnhandled | MessageTypeHeartbeat | MessageTypeData | MessageTypeOpen
  | MessageTypeClose

text \<open>
  \<^verbatim>\<open>parseMessage\<close>. \<open>data[0]\<close> is read with no length check: on an empty frame the index
  is out of range and the Go runtime panics. The decoder \<^verbatim>\<open>json.Unmarshal\<close> into a
  \<^verbatim>\<open>[]interface{}\<close> is the parameter \<open>unm\<close> (\<open>Inl\<close> its error, \<open>Inr\<close> the decoded slice,
  \<open>[]\<close> for nil). The payload is \<open>None\<close> for a nil slice.
\<close>

definition parseMessage ::
  "(bytes \<Rightarrow> 'x + 'v list) \<Rightarrow> bytes \<Rightarrow> (MessageType \<times> bytes option \<times> ('v, 'x) error option) run"
where
  "parseMessage unm data =
     (case data of
        [] \<Rightarrow> Panic
      | d0 # rest \<Rightarrow>
          Return
            (if d0 = CHR ''h'' then
               (if length (TrimSpace rest) \<noteq> 0
                then (MessageTypeHeartbeat, None, Some (Err ErrInvalidResponse))
                else (MessageTypeHeartbeat, None, None))
             else if d0 = CHR ''a'' then (MessageTypeData, Some rest, None)
             else if d0 = CHR ''o'' then
               (if length (TrimSpace rest) \<noteq> 0
                then (MessageTypeOpen, None, Some (Err ErrInvalidResponse))
                else (MessageTypeOpen, None, None))
             else if d0 = CHR ''c'' then
               (case unm rest of
                  Inr [v0, v1] \<Rightarrow> (MessageTypeClose, None, Some (ClosedByRemoteData v0 v1))
                | _ \<Rightarrow> (MessageTypeClose, None, Some ClosedByRemoteNoData))
             else (MessageTypeUnhandled, None, Some (UnknownMessageType d0))))"

section \<open>The transport address builder\<close>

text \<open>The fields of a parsed \<^verbatim>\<open>url.URL\<close> that the package reads.\<close>

record URL =
  Scheme :: string
  Host :: string
  Path :: string

text \<open>
  \<^verbatim>\<open>path.Clean\<close>. The output buffer \<^verbatim>\<open>lazybuf\<close> is the list \<open>out\<close> and its write index
  \<open>out.w\<close> the length of the list; \<open>r\<close> is the read index and \<open>dotdot\<close> the index where
  a \<^verbatim>\<open>..\<close> must stop.
\<close>

text \<open>The backtracking of a \<^verbatim>\<open>..\<close> element:
  \<^verbatim>\<open>out.w--; for out.w > dotdot && out.index(out.w) != '/' { out.w-- }\<close>.\<close>

fun backtrack :: "string \<Rightarrow> nat \<Rightarrow> nat \<Rightarrow> nat" where
  "backtrack out dotdot 0 = 0"
| "backtrack out dotdot (Suc w) =
     (if dotdot < Suc w \<and> out ! Suc w \<noteq> CHR ''/'' then backtrack out dotdot w else Suc w)"

lemma takeWhile_drop_nonempty:
  "r < length path \<Longrightarrow> path ! r \<noteq> c \<Longrightarrow> takeWhile (\<lambda>x. x \<noteq> c) (drop r path) \<noteq> []"
  by (cases "drop r path") (auto simp add: hd_drop_conv_nth dest: arg_cong [where f = hd])

function Clean_loop :: "string \<Rightarrow> bool \<Rightarrow> nat \<Rightarrow> string \<Rightarrow> nat \<Rightarrow> string" where
  "Clean_loop path rooted r out dotdot =
     (let n = length path in
      if r < n then
        if path ! r = CHR ''/'' then Clean_loop path rooted (r + 1) out dotdot
        else if path ! r = CHR ''.'' \<and> (r + 1 = n \<or> path ! (r + 1) = CHR ''/'')
          then Clean_loop path rooted (r + 1) out dotdot
        else if path ! r = CHR ''.'' \<and> path ! (r + 1) = CHR ''.''
                \<and> (r + 2 = n \<or> path ! (r + 2) = CHR ''/'')
          then
            (if dotdot < length out
             then Clean_loop path rooted (r + 2)
                    (take (backtrack out dotdot (length out - 1)) out) dotdot
             else if \<not> rooted
             then
               (let out' = (if 0 < length out then out @ ''/'' else out) @ ''..''
                in Clean_loop path rooted (r + 2) out' (length out'))
             else Clean_loop path rooted (r + 2) out dotdot)
        else
          (let out1 = (if rooted \<and> length out \<noteq> 1 \<or> \<not> rooted \<and> length out \<noteq> 0
                       then out @ ''/'' else out);
               seg = takeWhile (\<lambda>x. x \<noteq> CHR ''/'') (drop r path)
           in Clean_loop path rooted (r + length seg) (out1 @ seg) dotdot)
      else out)"
  by pat_completeness auto
termination
  by (relation "measure (\<lambda>(path, rooted, r, out, dotdot). length path - r)")
    (auto simp add: takeWhile_drop_nonempty intro!: diff_less_mono2)

declare Clean_loop.simps [simp del]

definition Clean :: "string \<Rightarrow> string" where
  "Clean path =
     (if path = [] then ''.''
      else
        let rooted = (path ! 0 = CHR ''/'');
            out = Clean_loop path rooted (if rooted then 1 else 0) (if rooted then ''/'' else [])
                    (if rooted then 1 else 0)
        in if length out = 0 then ''.'' else out)"

text \<open>\<^verbatim>\<open>path.Join\<close>: the loop that fills \<open>buf\<close>, then \<^verbatim>\<open>Clean\<close>.\<close>

fun Join_loop :: "string \<Rightarrow> string list \<Rightarrow> string" where
  "Join_loop buf [] = buf"
| "Join_loop buf (e # es) =
     Join_loop
       (if 0 < length buf \<or> e \<noteq> []
        then (if 0 < length buf then buf @ ''/'' else buf) @ e
        else buf) es"

definition Join :: "string list \<Rightarrow> string" where
  "Join elem = (if sum_list (map length elem) = 0 then [] else Clean (Join_loop [] elem))"

text \<open>
  \<^verbatim>\<open>parseTransportAddr\<close>. \<^verbatim>\<open>url.Parse\<close> is the parameter \<open>url_Parse\<close>.
\<close>

definition parseTransportAddr ::
  "(string \<Rightarrow> 'x + URL) \<Rightarrow> string \<Rightarrow> string \<Rightarrow> string \<Rightarrow> ('v, 'x) error + string"
where
  "parseTransportAddr url_Parse addr serverID sessionID =
     (case url_Parse addr of
        Inl err \<Rightarrow> Inl (External err)
      | Inr url \<Rightarrow>
          if serverID = [] then Inl NoServerIDProvided
          else if sessionID = [] then Inl NoSessionIDProvided
          else
            let taddr = Join [Host url, Path url, serverID, sessionID]
            in Inr (if Scheme url \<noteq> [] then Scheme url @ ''://'' @ taddr else taddr))"

section \<open>Shared helpers (identifier generation)\<close>

text \<open>\<^verbatim>\<open>strconv.Itoa\<close>: the decimal representation of an integer.\<close>

definition digit_char :: "nat \<Rightarrow> char" where
  "digit_char d = char_of (48 + d)"

fun digits :: "nat \<Rightarrow> string" where
  "digits n = (if n < 10 then [digit_char n] else digits (n div 10) @ [digit_char (n mod 10)])"

declare digits.simps [simp del]

definition Itoa :: "int \<Rightarrow> string" where
  "Itoa i = (if i < 0 then CHR ''-'' # digits (nat (- i)) else digits (nat i))"

text \<open>
  \<^verbatim>\<open>rand.Intn(n)\<close> panics when \<open>n \<le> 0\<close> and otherwise returns a number of the
  half-open interval \<open>[0, n)\<close>. \<open>src\<close> is what the generator yields at this call; it is
  reduced into the interval, so that every number of the interval, and no other, can be
  drawn.
\<close>

definition rand_Intn :: "nat \<Rightarrow> int \<Rightarrow> int run" where
  "rand_Intn src n = (if n \<le> 0 then Panic else Return (int src mod n))"

text \<open>\<^verbatim>\<open>paddedRandomIntn\<close>; \<open>mx\<close> is the argument \<^verbatim>\<open>max\<close>.\<close>

definition paddedRandomIntn :: "nat \<Rightarrow> int \<Rightarrow> string run" where
  "paddedRandomIntn src mx =
     (let ml = length (Itoa mx) in
      case rand_Intn src mx of
        Panic \<Rightarrow> Panic
      | Return ri \<Rightarrow>
          let is = Itoa ri
          in Return (if length is < ml then replicate (ml - length is) CHR ''0'' @ is else is))"

text \<open>The value of a string of decimal digits, and the test for such a string.\<close>

definition is_digit :: "char \<Rightarrow> bool" where
  "is_digit c = (48 \<le> byte c \<and> byte c \<le> 57)"

definition decimal_value :: "string \<Rightarrow> nat" where
  "decimal_value s = foldl (\<lambda>acc c. 10 * acc + (byte c - 48)) 0 s"

section \<open>Serializing a batch: \<^verbatim>\<open>json.Marshal\<close> of a slice of strings\<close>

text \<open>
  \<^verbatim>\<open>encoding/json\<close> (Go 1.22 and later) on a \<^verbatim>\<open>[]string\<close>, with HTML escaping on as
  \<^verbatim>\<open>json.Marshal\<close> has it. \<^verbatim>\<open>htmlSafeSet\<close> holds the ASCII bytes written as they are.
\<close>

definition htmlSafeSet :: "nat \<Rightarrow> bool" where
  "htmlSafeSet b = (0x20 \<le> b \<and> b < 0x80 \<and> b \<noteq> 0x22 \<and> b \<noteq> 0x26 \<and> b \<noteq> 0x3C
                    \<and> b \<noteq> 0x3E \<and> b \<noteq> 0x5C)"

definition hex :: string where
  "hex = ''0123456789abcdef''"

text \<open>The \<^verbatim>\<open>switch b\<close> of \<^verbatim>\<open>appendString\<close> for an ASCII byte outside the safe set.\<close>

definition escape_byte :: "char \<Rightarrow> string" where
  "escape_byte b =
     (if b = CHR 0x5C \<or> b = CHR 0x22 then [CHR 0x5C, b]
      else if b = CHR 0x08 then [CHR 0x5C, CHR ''b'']
      else if b = CHR 0x0C then [CHR 0x5C, CHR ''f'']
      else if b = CHR 0x0A then [CHR 0x5C, CHR ''n'']
      else if b = CHR 0x0D then [CHR 0x5C, CHR ''r'']
      else if b = CHR 0x09 then [CHR 0x5C, CHR ''t'']
      else [CHR 0x5C, CHR ''u'', CHR ''0'', CHR ''0'', hex ! (byte b div 16), hex ! (byte b mod 16)])"

text \<open>
  The loop of \<^verbatim>\<open>appendString\<close> between the two quotes. The source copies runs of
  unescaped bytes in one \<^verbatim>\<open>append(dst, src[start:i]...)\<close>; here each byte or rune is
  appended as it is passed, which writes the same bytes. Invalid UTF-8 is replaced by
  the escape \<^verbatim>\<open>\ufffd\<close>, and U+2028, U+2029 are escaped.
\<close>

lemma DecodeRune_take_pos: "0 < snd (DecodeRune (take UTFMax (x # xs)))"
  using DecodeRune_size_pos [of "take UTFMax (x # xs)"] by (simp add: UTFMax_def)

function appendString_loop :: "bytes \<Rightarrow> bytes" where
  "appendString_loop src =
     (case src of
        [] \<Rightarrow> []
      | b # rest \<Rightarrow>
          if byte b < RuneSelf then
            (if htmlSafeSet (byte b) then b # appendString_loop rest
             else escape_byte b @ appendString_loop rest)
          else
            (let cs = DecodeRune (take UTFMax src) in
             if fst cs = RuneError \<and> snd cs = 1
               then [CHR 0x5C] @ ''ufffd'' @ appendString_loop (drop 1 src)
             else if fst cs = 0x2028 \<or> fst cs = 0x2029
               then [CHR 0x5C] @ ''u202'' @ [hex ! (fst cs mod 16)]
                    @ appendString_loop (drop (snd cs) src)
             else take (snd cs) src @ appendString_loop (drop (snd cs) src)))"
  by pat_completeness auto
termination
  by (relation "measure length") (auto simp add: DecodeRune_take_pos)

declare appendString_loop.simps [simp del]

definition appendString :: "bytes \<Rightarrow> bytes" where
  "appendString src = [CHR 0x22] @ appendString_loop src @ [CHR 0x22]"

text \<open>The array encoder: \<^verbatim>\<open>[\<close>, the elements separated by commas, \<^verbatim>\<open>]\<close>. The slice
  is never nil at the call sites (it is made with \<^verbatim>\<open>make\<close>).\<close>

fun encode_elems :: "bytes list \<Rightarrow> bytes" where
  "encode_elems [] = []"
| "encode_elems [m] = appendString m"
| "encode_elems (m # ms) = appendString m @ '','' @ encode_elems ms"

definition json_Marshal :: "bytes list \<Rightarrow> bytes" where
  "json_Marshal msgs = ''['' @ encode_elems msgs @ '']''"

section \<open>Connections (websocket and xhr)\<close>

text \<open>
  What is shared by \<^verbatim>\<open>wsConn\<close> and \<^verbatim>\<open>xhrConn\<close>: the inbound channel \<^verbatim>\<open>in\<close>, whose
  values are messages or errors, and the cancellation of \<^verbatim>\<open>ctx\<close>. The channel is the
  list of values sent and not yet received, oldest first.
\<close>

datatype ('v, 'x) item = Message bytes | Failure "('v, 'x) error"

record ('v, 'x) conn_state =
  inq :: "('v, 'x) item list"
  cancelled :: bool

text \<open>
  \<^verbatim>\<open>ReadMsg\<close> (the same text in both connections) is one \<^verbatim>\<open>select\<close> over a receive
  from \<^verbatim>\<open>in\<close> and a receive from \<^verbatim>\<open>ctx.Done()\<close>. A \<^verbatim>\<open>select\<close> takes any one of the cases
  that can proceed, so the model returns every result the call can have, with the state
  after it; the empty list means that the call blocks.
\<close>

definition ReadMsg ::
  "('v, 'x) conn_state \<Rightarrow> ((bytes option \<times> ('v, 'x) error option) \<times> ('v, 'x) conn_state) list"
where
  "ReadMsg c =
     (case inq c of
        [] \<Rightarrow> []
      | Failure e # rest \<Rightarrow> [((None, Some e), c\<lparr>inq := rest\<rparr>)]
      | Message m # rest \<Rightarrow> [((Some m, None), c\<lparr>inq := rest\<rparr>)])
     @ (if cancelled c then [((None, Some (Err ErrClosedConnection)), c)] else [])"

text \<open>
  \<^verbatim>\<open>wsConn.WriteMsg\<close>. \<open>isClosed\<close> is \<^verbatim>\<open>isWebsocketClosed\<close> on the library's errors,
  \<open>write\<close> the outcome of \<^verbatim>\<open>conn.conn.WriteMessage\<close> on the frame, and \<open>ctx_err\<close> tells
  whether the context was cancelled by someone else while the write was failing.
\<close>

definition wsConn_WriteMsg ::
  "('x \<Rightarrow> bool) \<Rightarrow> (bytes \<Rightarrow> 'x option) \<Rightarrow> bool \<Rightarrow> ('v, 'x) conn_state \<Rightarrow> bytes list
     \<Rightarrow> ('v, 'x) error option \<times> ('v, 'x) conn_state"
where
  "wsConn_WriteMsg isClosed write ctx_err c data =
     (if cancelled c then (Some (Err ErrClosedConnection), c)
      else
        case write (json_Marshal data) of
          None \<Rightarrow> (None, c)
        | Some err \<Rightarrow>
            if ctx_err then (Some (Err ErrClosedConnection), c\<lparr>cancelled := True\<rparr>)
            else if isClosed err then (Some (ClosedConnectionCause err), c\<lparr>cancelled := True\<rparr>)
            else (Some (External err), c\<lparr>cancelled := True\<rparr>))"

text \<open>
  \<^verbatim>\<open>wsConn.Close\<close>. \<open>write_close\<close> is the outcome of sending the close message and
  \<open>close\<close> the outcome of \<^verbatim>\<open>conn.conn.Close()\<close>; the deferred \<^verbatim>\<open>conn.cncl()\<close> runs on
  every path past the first check.
\<close>

definition wsConn_Close ::
  "('x \<Rightarrow> bool) \<Rightarrow> 'x option \<Rightarrow> 'x option \<Rightarrow> ('v, 'x) conn_state
     \<Rightarrow> ('v, 'x) error option \<times> ('v, 'x) conn_state"
where
  "wsConn_Close isClosed write_close close c =
     (if cancelled c then (None, c)
      else
        let c' = c\<lparr>cancelled := True\<rparr> in
        if (case write_close of Some err \<Rightarrow> isClosed err | None \<Rightarrow> False) then (None, c')
        else
          case close of
            Some err \<Rightarrow> (Some (ClosingConnectionCause err), c')
          | None \<Rightarrow> (None, c'))"

text \<open>
  \<^verbatim>\<open>xhrConn.WriteMsg\<close>. \<open>post\<close> is the outcome of the request to the send endpoint: an
  error of \<^verbatim>\<open>http.NewRequestWithContext\<close> or of \<^verbatim>\<open>client.Do\<close>, or the status code.
  \<open>is_ctx_err\<close> is \<^verbatim>\<open>errors.Is(err, ctx.Err())\<close>, the test of \<^verbatim>\<open>maskCtxCancelled\<close>.
\<close>

definition maskCtxCancelled :: "('x \<Rightarrow> bool) \<Rightarrow> 'x \<Rightarrow> ('v, 'x) error" where
  "maskCtxCancelled is_ctx_err err = (if is_ctx_err err then Err ErrClosedConnection else External err)"

definition xhrConn_WriteMsg ::
  "('x \<Rightarrow> bool) \<Rightarrow> (bytes \<Rightarrow> 'x + int) \<Rightarrow> ('v, 'x) conn_state \<Rightarrow> bytes list
     \<Rightarrow> ('v, 'x) error option \<times> ('v, 'x) conn_state"
where
  "xhrConn_WriteMsg is_ctx_err post c data =
     (if cancelled c then (Some (Err ErrClosedConnection), c)
      else
        case post (json_Marshal data) of
          Inl err \<Rightarrow> (Some (maskCtxCancelled is_ctx_err err), c\<lparr>cancelled := True\<rparr>)
        | Inr status \<Rightarrow>
            if status = 204 then (None, c)
            else if status = 404 then (Some (Err ErrClosedConnection), c\<lparr>cancelled := True\<rparr>)
            else (Some (UnexpectedHTTP status), c\<lparr>cancelled := True\<rparr>))"

text \<open>\<^verbatim>\<open>xhrConn.Close\<close>: cancel, return nil.\<close>

definition xhrConn_Close ::
  "('v, 'x) conn_state \<Rightarrow> ('v, 'x) error option \<times> ('v, 'x) conn_state"
where
  "xhrConn_Close c = (None, c\<lparr>cancelled := True\<rparr>)"

text \<open>
  The dialers. \<open>connect\<close> is the websocket handshake and \<open>readMessage\<close> the first
  \<^verbatim>\<open>ws.ReadMessage()\<close>; for xhr, \<open>post\<close> is the initial request (an error of the request
  or of the transport, or the outcome of reading the response body; the status code is
  not looked at). A dial that succeeds returns the new connection: the handle or the
  two endpoint addresses, an empty inbound channel and a live context.
\<close>

definition WSDialer_DialContext ::
  "(bytes \<Rightarrow> 'x + 'v list) \<Rightarrow> (string \<Rightarrow> 'x + URL) \<Rightarrow> (string \<Rightarrow> 'x + 'h) \<Rightarrow> ('h \<Rightarrow> 'x + bytes)
     \<Rightarrow> string \<Rightarrow> string \<Rightarrow> string
     \<Rightarrow> (('v, 'x) error + ('h \<times> ('v, 'x) conn_state)) run"
where
  "WSDialer_DialContext unm url_Parse connect readMessage addr serverID sessionID =
     (case parseTransportAddr url_Parse addr serverID sessionID of
        Inl err \<Rightarrow> Return (Inl err)
      | Inr taddr \<Rightarrow>
          (case connect (taddr @ ''/websocket'') of
             Inl err \<Rightarrow> Return (Inl (External err))
           | Inr ws \<Rightarrow>
               (case readMessage ws of
                  Inl err \<Rightarrow> Return (Inl (External err))
                | Inr b \<Rightarrow>
                    (case parseMessage unm b of
                       Panic \<Rightarrow> Panic
                     | Return (mt, payload, err) \<Rightarrow>
                         if err \<noteq> None \<or> mt \<noteq> MessageTypeOpen then Return (Inl OpeningSession)
                         else Return (Inr (ws, \<lparr>inq = [], cancelled = False\<rparr>))))))"

definition XHRDialer_DialContext ::
  "(bytes \<Rightarrow> 'x + 'v list) \<Rightarrow> (string \<Rightarrow> 'x + URL) \<Rightarrow> (string \<Rightarrow> 'x + ('x + bytes))
     \<Rightarrow> string \<Rightarrow> string \<Rightarrow> string
     \<Rightarrow> (('v, 'x) error + ((string \<times> string) \<times> ('v, 'x) conn_state)) run"
where
  "XHRDialer_DialContext unm url_Parse post addr serverID sessionID =
     (case parseTransportAddr url_Parse addr serverID sessionID of
        Inl err \<Rightarrow> Return (Inl err)
      | Inr taddr \<Rightarrow>
          let readAddr = taddr @ ''/xhr'';
              writeAddr = taddr @ ''/xhr_send''
          in case post readAddr of
               Inl err \<Rightarrow> Return (Inl (External err))
             | Inr (Inl err) \<Rightarrow> Return (Inl (External err))
             | Inr (Inr b) \<Rightarrow>
                 (case parseMessage unm b of
                    Panic \<Rightarrow> Panic
                  | Return (mt, payload, err) \<Rightarrow>
                      if err \<noteq> None \<or> mt \<noteq> MessageTypeOpen then Return (Inl OpeningSession)
                      else Return (Inr ((readAddr, writeAddr), \<lparr>inq = [], cancelled = False\<rparr>))))"

section \<open>The client (client.go)\<close>

datatype transport = Socket | Polling

record ServerInfo =
  WebSocket :: bool
  CookieNeeded :: bool
  Origins :: "string list"
  Entropy :: int

text \<open>
  The value behind the \<^verbatim>\<open>Conn\<close> interface: a \<^verbatim>\<open>*wsConn\<close> with its websocket handle, or a
  \<^verbatim>\<open>*xhrConn\<close> with its read and write addresses.
\<close>

datatype ('h, 'v, 'x) Conn =
    WsConn 'h "('v, 'x) conn_state"
  | XhrConn string string "('v, 'x) conn_state"

text \<open>The client; \<open>conn\<close> and \<open>info\<close> are \<open>None\<close> for nil.\<close>

record ('h, 'v, 'x) Client =
  Address :: string
  ServerID :: string
  SessionID :: string
  NoWebsocket :: bool
  conn :: "('h, 'v, 'x) Conn option"
  info :: "ServerInfo option"

text \<open>
  What \<^verbatim>\<open>ConnectContext\<close> and the two dialers it calls get from outside: the outcome of
  \<^verbatim>\<open>GetServerInfo\<close> on the address, \<^verbatim>\<open>url.String\<close> and \<^verbatim>\<open>url.Parse\<close>, the JSON decoder
  of the close frame, the websocket handshake and first read, the initial xhr request,
  what the random generator yields, and \<^verbatim>\<open>uuid.Must(uuid.NewV4()).String()\<close>, which
  panics when no UUID can be generated.
\<close>

record ('h, 'v, 'x) connect_env =
  getServerInfo :: "string \<Rightarrow> 'x + (ServerInfo \<times> URL)"
  url_String :: "URL \<Rightarrow> string"
  url_Parse :: "string \<Rightarrow> 'x + URL"
  unmarshal :: "bytes \<Rightarrow> 'x + 'v list"
  wsConnect :: "string \<Rightarrow> 'x + 'h"
  wsReadMessage :: "'h \<Rightarrow> 'x + bytes"
  xhrPost :: "string \<Rightarrow> 'x + ('x + bytes)"
  randSource :: nat
  newUUID :: "string run"

text \<open>The scheme switch before the websocket dial.\<close>

definition ws_scheme :: "URL \<Rightarrow> URL" where
  "ws_scheme url =
     (if Scheme url = ''http'' then url\<lparr>Scheme := ''ws''\<rparr>
      else if Scheme url = ''https'' then url\<lparr>Scheme := ''wss''\<rparr>
      else url)"

text \<open>The two dials as \<^verbatim>\<open>ConnectContext\<close> makes them.\<close>

definition dial_ws ::
  "('h, 'v, 'x) connect_env \<Rightarrow> URL \<Rightarrow> string \<Rightarrow> string
     \<Rightarrow> (('v, 'x) error + ('h \<times> ('v, 'x) conn_state)) run"
where
  "dial_ws env url sid sess =
     WSDialer_DialContext (unmarshal env) (url_Parse env) (wsConnect env) (wsReadMessage env)
       (url_String env (ws_scheme url)) sid sess"

definition dial_xhr ::
  "('h, 'v, 'x) connect_env \<Rightarrow> URL \<Rightarrow> string \<Rightarrow> string
     \<Rightarrow> (('v, 'x) error + ((string \<times> string) \<times> ('v, 'x) conn_state)) run"
where
  "dial_xhr env url sid sess =
     XHRDialer_DialContext (unmarshal env) (url_Parse env) (xhrPost env)
       (url_String env url) sid sess"

text \<open>
  \<^verbatim>\<open>Client.ConnectContext\<close>. The result is how the call ends (a panic, or the returned
  error, \<open>None\<close> for nil), the client as the call leaves it (the identifiers are stored
  before the dials, so they stay when a dial panics), and the dials attempted, in order.
\<close>

definition ConnectContext ::
  "('h, 'v, 'x) connect_env \<Rightarrow> ('h, 'v, 'x) Client
     \<Rightarrow> ('v, 'x) error option run \<times> ('h, 'v, 'x) Client \<times> transport list"
where
  "ConnectContext env c =
     (case getServerInfo env (Address c) of
        Inl err \<Rightarrow>
          (Return (if Address c = [] then Some NoAddressProvided
                   else Some (CannotConnectInfo err)), c, [])
      | Inr (si, url) \<Rightarrow>
          (case (if ServerID c = [] then paddedRandomIntn (randSource env) 999
                 else Return (ServerID c)) of
             Panic \<Rightarrow> (Panic, c, [])
           | Return sid \<Rightarrow>
               let c1 = c\<lparr>ServerID := sid\<rparr> in
               (case (if SessionID c1 = [] then newUUID env else Return (SessionID c1)) of
                  Panic \<Rightarrow> (Panic, c1, [])
                | Return sess \<Rightarrow>
                    let c2 = c1\<lparr>SessionID := sess\<rparr>;
                        ws = (if \<not> NoWebsocket c2 \<and> WebSocket si
                              then Some (dial_ws env url (ServerID c2) (SessionID c2))
                              else None);
                        tr = (case ws of None \<Rightarrow> [] | Some r \<Rightarrow> [Socket])
                    in case ws of
                         Some Panic \<Rightarrow> (Panic, c2, tr)
                       | Some (Return (Inr (h, st))) \<Rightarrow>
                           (Return None, c2\<lparr>conn := Some (WsConn h st), info := Some si\<rparr>, tr)
                       | _ \<Rightarrow>
                           (case dial_xhr env url (ServerID c2) (SessionID c2) of
                              Panic \<Rightarrow> (Panic, c2, tr @ [Polling])
                            | Return (Inr ((raddr, waddr), st)) \<Rightarrow>
                                (Return None,
                                 c2\<lparr>conn := Some (XhrConn raddr waddr st), info := Some si\<rparr>,
                                 tr @ [Polling])
                            | Return (Inl xhrErr) \<Rightarrow>
                                (case ws of
                                   Some (Return (Inl wsErr)) \<Rightarrow>
                                     (Return (Some (CannotConnectWsXhr wsErr xhrErr)), c2,
                                      tr @ [Polling])
                                 | _ \<Rightarrow>
                                     (Return (Some (CannotConnectXhr xhrErr)), c2,
                                      tr @ [Polling]))))))"

text \<open>
  A decoder that knows one close payload, for the frames \<^verbatim>\<open>c[3000,"Go away!"]\<close> and
  \<^verbatim>\<open>c\<close>: it stands for \<^verbatim>\<open>json.Unmarshal\<close> on these two inputs (the empty input is not
  valid JSON).
\<close>

definition close_payload :: bytes where
  "close_payload = ''[3000,'' @ [CHR 0x22] @ ''Go away!'' @ [CHR 0x22] @ '']''"

definition sample_unmarshal :: "bytes \<Rightarrow> unit + string list" where
  "sample_unmarshal b = (if b = close_payload then Inr [''3000'', ''Go away!''] else Inl ())"

text \<open>
  Sample surroundings for \<^verbatim>\<open>ConnectContext\<close>: a server that answers the info request
  and then sends \<open>ws_first\<close> as its first websocket frame and \<open>xhr_first\<close> as the body of
  the first xhr response; and a server that refuses the info request.
\<close>

definition sample_info :: ServerInfo where
  "sample_info = \<lparr>WebSocket = True, CookieNeeded = False, Origins = [], Entropy = 0\<rparr>"

definition sample_url :: URL where
  "sample_url = \<lparr>Scheme = ''http'', Host = ''127.0.0.1:8008'', Path = ''/sockjs''\<rparr>"

definition sample_url_String :: "URL \<Rightarrow> string" where
  "sample_url_String u = Scheme u @ ''://'' @ Host u @ Path u"

definition sample_url_Parse :: "string \<Rightarrow> string + URL" where
  "sample_url_Parse a =
     (if a = ''http://127.0.0.1:8008/sockjs'' then Inr sample_url
      else if a = ''ws://127.0.0.1:8008/sockjs'' then Inr (ws_scheme sample_url)
      else Inl ''parse error'')"

definition sample_env :: "bytes \<Rightarrow> bytes \<Rightarrow> (nat, string, string) connect_env" where
  "sample_env ws_first xhr_first =
     \<lparr>getServerInfo = (\<lambda>a. Inr (sample_info, sample_url)),
      url_String = sample_url_String,
      url_Parse = sample_url_Parse,
      unmarshal = (\<lambda>b. Inl ''unexpected end of JSON input''),
      wsConnect = (\<lambda>a. Inr 1),
      wsReadMessage = (\<lambda>h. Inr ws_first),
      xhrPost = (\<lambda>a. Inr (Inr xhr_first)),
      randSource = 1041,
      newUUID = Return ''6ba7b810-9dad-41d1-80b4-00c04fd430c8''\<rparr>"

definition refused_env :: "(nat, string, string) connect_env" where
  "refused_env = (sample_env ''o'' ''o'')\<lparr>getServerInfo := (\<lambda>a. Inl ''connection refused'')\<rparr>"

definition sample_client :: "bool \<Rightarrow> (nat, string, string) Client" where
  "sample_client nows =
     \<lparr>Address = ''http://127.0.0.1:8008/sockjs'', ServerID = [], SessionID = [],
      NoWebsocket = nows, conn = None, info = None\<rparr>"

text \<open>Sample connections: one with a message waiting in the inbound channel, one closed
  with nothing waiting.\<close>

definition queued_conn :: "(string, unit) conn_state" where
  "queued_conn = \<lparr>inq = [Message ''hello world!''], cancelled = False\<rparr>"

definition closed_conn :: "(string, unit) conn_state" where
  "closed_conn = \<lparr>inq = [], cancelled = True\<rparr>"

section \<open>Properties of the frame codec\<close>

text \<open>
  C9. The frame parser reads the first byte of the frame with no length check. On the
  empty frame the index is out of range and the call panics (no error value, no result);
  on every frame of at least one byte it returns a result.
\<close>

theorem C9_parseMessage_panics_exactly_on_empty:
  "parseMessage unm [] = Panic \<and> (\<exists>r. parseMessage unm (d0 # rest) = Return r)"
  by (simp add: parseMessage_def del: split_paired_Ex)

text \<open>
  C4. A frame whose first byte is \<open>c\<close> is never a success: the parser returns the Close
  type, no payload and an error that wraps the closed-by-remote sentinel. When the
  remainder decodes as a JSON array of exactly two elements the error embeds both of
  them; for every other remainder (not decodable, or of another length) it is the error
  noting that the close data was missing or invalid.
\<close>

theorem C4_close_frame_always_error:
  "(\<exists>e. parseMessage unm (CHR ''c'' # rest) = Return (MessageTypeClose, None, Some e)
        \<and> errors_Is e ErrClosedByRemote)
   \<and> (unm rest = Inr [v0, v1] \<longrightarrow>
        parseMessage unm (CHR ''c'' # rest)
          = Return (MessageTypeClose, None, Some (ClosedByRemoteData v0 v1)))
   \<and> ((\<forall>a b. unm rest \<noteq> Inr [a, b]) \<longrightarrow>
        parseMessage unm (CHR ''c'' # rest)
          = Return (MessageTypeClose, None, Some ClosedByRemoteNoData))"
  by (auto simp add: parseMessage_def errors_Is_def split: sum.splits list.splits)

theorem C4_close_frame_witness:
  "sample_unmarshal close_payload = Inr [''3000'', ''Go away!'']
   \<and> parseMessage sample_unmarshal (CHR ''c'' # close_payload)
       = Return (MessageTypeClose, None, Some (ClosedByRemoteData ''3000'' ''Go away!''))
   \<and> (\<forall>a b. sample_unmarshal [] \<noteq> Inr [a, b])
   \<and> parseMessage sample_unmarshal ''c''
       = Return (MessageTypeClose, None, Some ClosedByRemoteNoData)"
proof -
  have h1: "sample_unmarshal close_payload = Inr [''3000'', ''Go away!'']"
    by (simp add: sample_unmarshal_def)
  have h2: "\<forall>a b. sample_unmarshal [] \<noteq> Inr [a, b]"
    by (simp add: sample_unmarshal_def close_payload_def)
  from C4_close_frame_always_error [of sample_unmarshal close_payload "''3000''" "''Go away!''"]
    C4_close_frame_always_error [of sample_unmarshal "[]"] h1 h2
  show ?thesis by simp
qed

subsection \<open>Trimming white space\<close>

lemma IsSpace_RuneError: "\<not> IsSpace RuneError"
  by (simp add: IsSpace_def RuneError_def)

lemma asciiSpace_IsSpace: "c < RuneSelf \<Longrightarrow> IsSpace c = asciiSpace c"
  by (auto simp add: IsSpace_def asciiSpace_def RuneSelf_def)

lemma asciiSpace_lt: "asciiSpace c \<Longrightarrow> c < RuneSelf"
  by (auto simp add: asciiSpace_def RuneSelf_def)

lemma indexFunc_loop_spec:
  "f = IsSpace \<Longrightarrow> \<not> truth \<Longrightarrow>
   (indexFunc_loop s f truth start = - 1 \<and> white_space_only (drop start s))
   \<or> (\<exists>k. indexFunc_loop s f truth start = int k \<and> k < length s
          \<and> \<not> IsSpace (fst (first_rune (drop k s))) \<and> \<not> white_space_only (drop start s))"
proof (induct s f truth start rule: indexFunc_loop.induct)
  case (1 s f truth start)
  show ?case
  proof (cases "start < length s")
    case False
    then show ?thesis
      by (subst indexFunc_loop.simps, subst (1 2) white_space_only.simps) simp
  next
    case lt: True
    define rw where "rw = (if RuneSelf \<le> byte (s ! start) then DecodeRune (drop start s)
                   else (byte (s ! start), 1))"
    have fr: "first_rune (drop start s) = rw"
      using lt by (simp add: first_rune_def rw_def)
    have ne: "drop start s \<noteq> []" using lt by simp
    show ?thesis
    proof (cases "IsSpace (fst rw)")
      case False
      have a: "indexFunc_loop s f truth start = int start"
        using lt False 1(2,3) by (subst indexFunc_loop.simps) (simp add: rw_def Let_def)
      have b: "\<not> white_space_only (drop start s)"
        using False ne fr by (subst white_space_only.simps) simp
      from a b lt False fr show ?thesis by auto
    next
      case sp: True
      have a: "indexFunc_loop s f truth start = indexFunc_loop s f truth (start + snd rw)"
        using lt sp 1(2,3) by (subst indexFunc_loop.simps) (simp add: rw_def Let_def)
      have b: "white_space_only (drop start s) = white_space_only (drop (start + snd rw) s)"
        using sp ne fr by (subst white_space_only.simps) (simp add: add.commute)
      have "f (fst rw) \<noteq> truth" using sp 1(2,3) by simp
      from 1(1) [OF lt rw_def this 1(2,3)] show ?thesis
        unfolding a b .
    qed
  qed
qed

lemma DecodeLastRune_valid:
  assumes "p \<noteq> []" and hi: "RuneSelf \<le> byte (p ! (length p - 1))"
    and d: "DecodeLastRune p = (r, sz)" and r: "r \<noteq> RuneError"
  shows "sz \<le> length p \<and> DecodeRune (drop (length p - sz) p) = (r, sz)"
proof -
  define s0 where "s0 = scan_start p (max 0 (int (length p) - int UTFMax)) (int (length p) - 2)"
  define start where "start = nat (if s0 < 0 then 0 else s0)"
  obtain r' sz' where d': "DecodeRune (drop start p) = (r', sz')"
    by force
  have "DecodeLastRune p =
      (if byte (p ! (length p - 1)) < RuneSelf then (byte (p ! (length p - 1)), 1)
       else if start + sz' \<noteq> length p then (RuneError, 1) else (r', sz'))"
    using assms(1) d' unfolding DecodeLastRune_def Let_def s0_def [symmetric] start_def [symmetric]
    by simp
  with hi d r have "start + sz' = length p \<and> r' = r \<and> sz' = sz"
    by (simp split: if_splits)
  then have e: "r' = r" "sz' = sz" and "start = length p - sz" "sz \<le> length p"
    by auto
  with d' show ?thesis by simp
qed

lemma DecodeRune_take:
  assumes "DecodeRune (take i y) = (r, i)" and "r \<noteq> RuneError" and "i \<le> length y"
  shows "DecodeRune y = (r, i)"
proof -
  have i: "0 < i" using assms(1,2) by (cases i) (simp_all add: DecodeRune_def)
  then have y: "y \<noteq> []" using assms(3) by auto
  have l: "length (take i y) = i" using assms(3) by simp
  have n0: "take i y ! 0 = y ! 0" using i by simp
  consider "i = 1" | "i = 2" | "i = 3" | "i = 4" | "4 < i" using i by linarith
  then show ?thesis
  proof cases
    case 1
    with assms show ?thesis
      by (simp add: DecodeRune_def Let_def l n0 y split: if_splits)
  next
    case 2
    with assms show ?thesis
      by (simp add: DecodeRune_def Let_def l n0 y split: if_splits)
  next
    case 3
    with assms show ?thesis
      by (simp add: DecodeRune_def Let_def l n0 y split: if_splits)
  next
    case 4
    with assms show ?thesis
      by (simp add: DecodeRune_def Let_def l n0 y split: if_splits)
  next
    case 5
    with assms show ?thesis
      by (simp add: DecodeRune_def Let_def l n0 y split: if_splits)
  qed
qed

lemma DecodeRune_ascii:
  "y \<noteq> [] \<Longrightarrow> byte (y ! 0) < RuneSelf \<Longrightarrow> DecodeRune y = (byte (y ! 0), 1)"
  by (cases y)
     (simp_all add: DecodeRune_def Let_def utf8_first_def RuneSelf_def t_as_def t_xx_def)

lemma last_rune_no_overlap:
  assumes i: "0 < i" "i \<le> length y"
    and rw: "rw = (if RuneSelf \<le> byte (y ! (i - 1)) then DecodeLastRune (take i y)
                   else (byte (y ! (i - 1)), 1))"
    and sp: "IsSpace (fst rw)" and le: "i \<le> snd rw"
  shows "IsSpace (fst (first_rune y))"
proof (cases "RuneSelf \<le> byte (y ! (i - 1))")
  case False
  with rw le i have "i = 1" "fst rw = byte (y ! 0)" by simp_all
  with False sp show ?thesis by (simp add: first_rune_def)
next
  case True
  obtain r sz where d: "DecodeLastRune (take i y) = (r, sz)" by force
  with True rw have rw': "rw = (r, sz)" by simp
  with sp have r: "r \<noteq> RuneError" using IsSpace_RuneError by auto
  have ne: "take i y \<noteq> []" using i by auto
  have y: "y \<noteq> []" using i by auto
  have "RuneSelf \<le> byte (take i y ! (length (take i y) - 1))"
    using True i by simp
  from DecodeLastRune_valid [OF ne this d r] i
  have "sz \<le> i" and dr: "DecodeRune (drop (i - sz) (take i y)) = (r, sz)"
    by simp_all
  with le rw' have "sz = i" by simp
  with dr have "DecodeRune (take i y) = (r, i)" by simp
  from DecodeRune_take [OF this r i(2)] have dy: "DecodeRune y = (r, i)" .
  show ?thesis
  proof (cases "RuneSelf \<le> byte (y ! 0)")
    case True
    with dy sp rw' show ?thesis by (simp add: first_rune_def)
  next
    case False
    with DecodeRune_ascii [OF y] dy have "r = byte (y ! 0)" by simp
    with False sp rw' show ?thesis by (simp add: first_rune_def)
  qed
qed

lemma lastIndexFunc_loop_found:
  "f = IsSpace \<Longrightarrow> \<not> truth \<Longrightarrow> \<not> IsSpace (fst (first_rune y)) \<Longrightarrow> 0 < i \<Longrightarrow> i \<le> length y
   \<Longrightarrow> 0 \<le> lastIndexFunc_loop y f truth i \<and> lastIndexFunc_loop y f truth i < int i"
proof (induct y f truth i rule: lastIndexFunc_loop.induct)
  case (1 s f truth i)
  define rw where "rw = (if RuneSelf \<le> byte (s ! (i - 1)) then DecodeLastRune (take i s)
                   else (byte (s ! (i - 1)), 1))"
  define i' where "i' = i - snd rw"
  have g: "0 < i \<and> i \<le> length s" using 1(5,6) by simp
  have "take i s \<noteq> []" using g by auto
  then have "1 \<le> snd (DecodeLastRune (take i s))" by (rule DecodeLastRune_size_pos)
  then have pos: "1 \<le> snd rw" by (simp add: rw_def)
  show ?case
  proof (cases "IsSpace (fst rw)")
    case False
    have "lastIndexFunc_loop s f truth i = int i'"
      using g False 1(2,3)
      by (subst lastIndexFunc_loop.simps) (simp add: rw_def i'_def Let_def)
    with pos g show ?thesis by (simp add: i'_def)
  next
    case sp: True
    have a: "lastIndexFunc_loop s f truth i = lastIndexFunc_loop s f truth i'"
      using g sp 1(2,3)
      by (subst lastIndexFunc_loop.simps) (simp add: rw_def i'_def Let_def)
    have "\<not> i \<le> snd rw"
      using last_rune_no_overlap [OF 1(5,6) rw_def sp] 1(4) by blast
    then have i': "0 < i'" "i' \<le> length s" "i' < i"
      using g pos by (simp_all add: i'_def)
    have "f (fst rw) \<noteq> truth" using sp 1(2,3) by simp
    from 1(1) [OF g rw_def i'_def this 1(2,3,4) i'(1,2)] i'(3) show ?thesis
      unfolding a by simp
  qed
qed

lemma TrimRightFunc_nonempty:
  assumes "y \<noteq> []" and "\<not> IsSpace (fst (first_rune y))"
  shows "TrimRightFunc y IsSpace \<noteq> []"
proof -
  define k where "k = lastIndexFunc y IsSpace False"
  have k: "0 \<le> k" "k < int (length y)"
    using lastIndexFunc_loop_found [of IsSpace False y "length y"] assms
    by (simp_all add: k_def lastIndexFunc_def)
  then have "drop (nat k) y \<noteq> []" by simp
  then have "1 \<le> snd (DecodeRune (drop (nat k) y))" by (rule DecodeRune_size_pos)
  with k have "1 \<le> (if 0 \<le> k \<and> RuneSelf \<le> byte (y ! nat k)
               then k + int (snd (DecodeRune (drop (nat k) y)))
               else k + 1)"
    by simp
  with assms(1) show ?thesis
    unfolding TrimRightFunc_def Let_def k_def [symmetric] by (cases y) auto
qed

lemma TrimFunc_empty_iff: "TrimFunc x IsSpace = [] \<longleftrightarrow> white_space_only x"
proof -
  from indexFunc_loop_spec [of IsSpace False x 0]
  consider (all) "indexFunc x IsSpace False = - 1" "white_space_only x"
    | (found) k where "indexFunc x IsSpace False = int k" "k < length x"
        "\<not> IsSpace (fst (first_rune (drop k x)))" "\<not> white_space_only x"
    by (auto simp add: indexFunc_def)
  then show ?thesis
  proof cases
    case all
    then show ?thesis
      by (simp add: TrimFunc_def TrimLeftFunc_def TrimRightFunc_def Let_def)
  next
    case found
    then have "TrimLeftFunc x IsSpace = drop k x"
      by (simp add: TrimLeftFunc_def Let_def)
    moreover have "TrimRightFunc (drop k x) IsSpace \<noteq> []"
      using found by (intro TrimRightFunc_nonempty) simp_all
    ultimately show ?thesis using found(4) by (simp add: TrimFunc_def)
  qed
qed

lemma not_white_space_only:
  "x \<noteq> [] \<Longrightarrow> byte (x ! 0) < RuneSelf \<Longrightarrow> \<not> asciiSpace (byte (x ! 0)) \<Longrightarrow> \<not> white_space_only x"
  by (subst white_space_only.simps) (simp add: first_rune_def asciiSpace_IsSpace)

lemma white_space_only_ascii:
  "x \<noteq> [] \<Longrightarrow> asciiSpace (byte (x ! 0)) \<Longrightarrow> white_space_only x = white_space_only (drop 1 x)"
  using asciiSpace_lt [of "byte (x ! 0)"]
  by (subst white_space_only.simps) (simp add: first_rune_def asciiSpace_IsSpace)

lemma TrimSpace_right_nonempty:
  "byte (s ! start) < RuneSelf \<Longrightarrow> \<not> asciiSpace (byte (s ! start)) \<Longrightarrow> start < stop
   \<Longrightarrow> stop \<le> length s
   \<Longrightarrow> (case TrimSpace_right s start stop of Inl r \<Rightarrow> r \<noteq> [] | Inr stop' \<Rightarrow> start < stop' \<and> stop' \<le> length s)"
proof (induct s start stop rule: TrimSpace_right.induct)
  case (1 s start stop)
  define c where "c = byte (s ! (stop - 1))"
  show ?case
  proof (cases "RuneSelf \<le> c")
    case True
    define x where "x = take (stop - start) (drop start s)"
    have x: "x \<noteq> []" "x ! 0 = s ! start"
      using 1(4,5) by (simp_all add: x_def)
    with 1(2,3) have "\<not> white_space_only x" by (intro not_white_space_only) simp_all
    then have "TrimFunc x IsSpace \<noteq> []" by (simp add: TrimFunc_empty_iff)
    moreover have "TrimSpace_right s start stop = Inl (TrimFunc x IsSpace)"
      using True 1(4) by (subst TrimSpace_right.simps) (simp add: c_def x_def Let_def)
    ultimately show ?thesis by simp
  next
    case lo: False
    show ?thesis
    proof (cases "asciiSpace c")
      case False
      have "TrimSpace_right s start stop = Inr stop"
        using lo False 1(4) by (subst TrimSpace_right.simps) (simp add: c_def Let_def)
      with 1(4,5) show ?thesis by simp
    next
      case True
      have a: "TrimSpace_right s start stop = TrimSpace_right s start (stop - 1)"
        using lo True 1(4) by (subst TrimSpace_right.simps) (simp add: c_def Let_def)
      have "stop - 1 \<noteq> start" using True 1(3) by (auto simp add: c_def)
      with 1(4,5) have b: "start < stop - 1" "stop - 1 \<le> length s" by simp_all
      have nn: "\<not> \<not> asciiSpace c" using True by simp
      from 1(1) [OF 1(4) c_def lo nn 1(2,3) b] show ?thesis
        unfolding a .
    qed
  qed
qed

lemma TrimSpace_loop_empty_iff:
  "start \<le> length s \<Longrightarrow>
   ((case TrimSpace_left s start of
       Inl r \<Rightarrow> r
     | Inr st \<Rightarrow>
         (case TrimSpace_right s st (length s) of
            Inl r \<Rightarrow> r
          | Inr stop \<Rightarrow> if st = stop then [] else take (stop - st) (drop st s))) = [])
   \<longleftrightarrow> white_space_only (drop start s)"
proof (induct s start rule: TrimSpace_left.induct)
  case (1 s start)
  show ?case
  proof (cases "start < length s")
    case False
    with 1(2) have e: "start = length s" by simp
    have "TrimSpace_left s start = Inr start"
      using False by (subst TrimSpace_left.simps) simp
    moreover have "TrimSpace_right s start (length s) = Inr (length s)"
      using e by (subst TrimSpace_right.simps) simp
    moreover have "white_space_only (drop start s)"
      using e by (subst white_space_only.simps) simp
    ultimately show ?thesis using e by simp
  next
    case lt: True
    define c where "c = byte (s ! start)"
    have ne: "drop start s \<noteq> []" and hd: "drop start s ! 0 = s ! start"
      using lt by simp_all
    show ?thesis
    proof (cases "RuneSelf \<le> c")
      case True
      have "TrimSpace_left s start = Inl (TrimFunc (drop start s) IsSpace)"
        using True lt by (subst TrimSpace_left.simps) (simp add: c_def Let_def)
      then show ?thesis by (simp add: TrimFunc_empty_iff)
    next
      case lo: False
      show ?thesis
      proof (cases "asciiSpace c")
        case False
        have l: "TrimSpace_left s start = Inr start"
          using lo False lt by (subst TrimSpace_left.simps) (simp add: c_def Let_def)
        have n: "\<not> white_space_only (drop start s)"
          using ne hd lo False by (intro not_white_space_only) (simp_all add: c_def)
        from TrimSpace_right_nonempty [of s start "length s"] lo False lt
        have "case TrimSpace_right s start (length s) of
                Inl r \<Rightarrow> r \<noteq> [] | Inr stop' \<Rightarrow> start < stop' \<and> stop' \<le> length s"
          by (simp add: c_def)
        with lt have "(case TrimSpace_right s start (length s) of
            Inl r \<Rightarrow> r
          | Inr stop \<Rightarrow> if start = stop then [] else take (stop - start) (drop start s)) \<noteq> []"
          by (cases "TrimSpace_right s start (length s)") auto
        with l n show ?thesis by simp
      next
        case True
        have a: "TrimSpace_left s start = TrimSpace_left s (start + 1)"
          using lo True lt by (subst TrimSpace_left.simps) (simp add: c_def Let_def)
        have b: "white_space_only (drop start s) = white_space_only (drop (start + 1) s)"
          using white_space_only_ascii [OF ne] True hd by (simp add: c_def)
        have nn: "\<not> \<not> asciiSpace c" using True by simp
        have "start + 1 \<le> length s" using lt by simp
        from 1(1) [OF lt c_def lo nn this] show ?thesis
          unfolding a b .
      qed
    qed
  qed
qed

lemma TrimSpace_empty_iff: "TrimSpace s = [] \<longleftrightarrow> white_space_only s"
  using TrimSpace_loop_empty_iff [of 0 s] by (simp add: TrimSpace_def)

lemma accept_lo:
  "utf8_first b < t_as \<Longrightarrow> RuneSelf \<le> fst (acceptRanges (utf8_first b div 16))"
  by (simp add: utf8_first_def acceptRanges_def t_as_def t_xx_def t_s1_def t_s2_def t_s3_def
      t_s4_def t_s5_def t_s6_def t_s7_def locb_def hicb_def RuneSelf_def split: if_splits)

lemma DecodeRune_cont:
  assumes "DecodeRune s = (r, n)" and "0 < k" and "k < n"
  shows "RuneSelf \<le> byte (s ! k)"
proof -
  have lo: "RuneSelf \<le> locb" by (simp add: RuneSelf_def locb_def)
  consider "k = 1" | "k = 2" | "k = 3" | "3 < k" using assms(2) by linarith
  then show ?thesis
  proof cases
    case 1
    with assms accept_lo [of "byte (s ! 0)"] lo show ?thesis
      by (simp add: DecodeRune_def Let_def split: if_splits)
  next
    case 2
    with assms lo show ?thesis
      by (simp add: DecodeRune_def Let_def split: if_splits)
  next
    case 3
    with assms lo show ?thesis
      by (simp add: DecodeRune_def Let_def split: if_splits)
  next
    case 4
    with assms show ?thesis
      by (simp add: DecodeRune_def Let_def split: if_splits)
  qed
qed

lemma white_space_only_ascii_bytes:
  "white_space_only s \<Longrightarrow> b \<in> set s \<Longrightarrow> byte b < RuneSelf \<Longrightarrow> asciiSpace (byte b)"
proof (induct s rule: white_space_only.induct)
  case (1 s)
  define n where "n = snd (first_rune s)"
  from 1(3) have ne: "s \<noteq> []" by auto
  from 1(2) ne have sp: "IsSpace (fst (first_rune s))" and ws: "white_space_only (drop n s)"
    by (subst (asm) white_space_only.simps, simp add: n_def split: if_splits)+
  have "set s = set (take n s) \<union> set (drop n s)"
    by (metis append_take_drop_id set_append)
  with 1(3) consider "b \<in> set (take n s)" | "b \<in> set (drop n s)" by auto
  then show ?case
  proof cases
    case 2
    from 1(1) [OF ne sp ws [unfolded n_def] 2 [unfolded n_def] 1(4)] show ?thesis .
  next
    case 1
    then obtain k where k: "k < n" "k < length s" "s ! k = b"
      by (auto simp add: in_set_conv_nth)
    show ?thesis
    proof (cases "k = 0")
      case True
      with k \<open>byte b < RuneSelf\<close> sp show ?thesis
        by (simp add: first_rune_def asciiSpace_IsSpace)
    next
      case False
      with k have "1 < n" by simp
      then have "first_rune s = DecodeRune s"
        by (auto simp add: n_def first_rune_def split: if_splits)
      then have "DecodeRune s = (fst (first_rune s), n)" by (simp add: n_def)
      from DecodeRune_cont [OF this, of k] False k have "RuneSelf \<le> byte b" by simp
      with \<open>byte b < RuneSelf\<close> show ?thesis by simp
    qed
  qed
qed

lemma white_space_only_ascii_spaces:
  "\<forall>b\<in>set s. asciiSpace (byte b) \<Longrightarrow> white_space_only s"
proof (induct s)
  case Nil
  show ?case by (subst white_space_only.simps) simp
next
  case (Cons a s)
  then show ?case
    using white_space_only_ascii [of "a # s"] by simp
qed

text \<open>
  C5 (as the claim states it, refuted). The frame is \<^verbatim>\<open>h\<close> followed by the three bytes
  \<^verbatim>\<open>E2 80 83\<close>, the UTF-8 encoding of U+2003 (EM SPACE). None of the three bytes is a
  whitespace byte, yet \<^verbatim>\<open>bytes.TrimSpace\<close> removes the rune and the frame parses as a
  heartbeat with no error.
\<close>

theorem C5_heartbeat_with_em_space_succeeds:
  "parseMessage sample_unmarshal (CHR ''h'' # [CHR 0xE2, CHR 0x80, CHR 0x83])
     = Return (MessageTypeHeartbeat, None, None)
   \<and> \<not> asciiSpace (byte (CHR 0xE2)) \<and> \<not> asciiSpace (byte (CHR 0x80))
   \<and> \<not> asciiSpace (byte (CHR 0x83))
   \<and> \<not> IsSpace (byte (CHR 0xE2)) \<and> \<not> IsSpace (byte (CHR 0x80)) \<and> \<not> IsSpace (byte (CHR 0x83))"
proof -
  have "white_space_only []" by (subst white_space_only.simps) simp
  moreover have "first_rune [CHR 0xE2, CHR 0x80, CHR 0x83] = (0x2003, 3)"
    by (simp add: first_rune_def DecodeRune_def Let_def utf8_first_def acceptRanges_def
        RuneSelf_def RuneError_def t_as_def t_xx_def t_s1_def t_s2_def t_s3_def locb_def hicb_def)
  ultimately have "white_space_only [CHR 0xE2, CHR 0x80, CHR 0x83]"
    by (subst white_space_only.simps) (simp add: IsSpace_def)
  then have "TrimSpace [CHR 0xE2, CHR 0x80, CHR 0x83] = []"
    by (simp add: TrimSpace_empty_iff)
  then show ?thesis
    by (simp add: parseMessage_def asciiSpace_def IsSpace_def)
qed

text \<open>
  C5 (amended). Whitespace is Unicode white space, read from the remainder as UTF-8: a
  frame \<^verbatim>\<open>h\<close> (or \<^verbatim>\<open>o\<close>) parses as Heartbeat (Open) with no payload, and with no error
  exactly when every rune decoded from its remainder, left to right, is white space;
  otherwise the error is the invalid-response error. A remainder made only of ASCII
  whitespace bytes is of the first kind, and a remainder that contains any ASCII byte
  that is not whitespace is of the second. A frame whose first byte is none of
  \<^verbatim>\<open>h\<close>, \<^verbatim>\<open>a\<close>, \<^verbatim>\<open>o\<close>, \<^verbatim>\<open>c\<close> parses as Unhandled with an invalid-response error that
  names the byte.
\<close>

theorem C5_heartbeat_open_unhandled:
  "parseMessage unm (CHR ''h'' # rest)
     = Return (MessageTypeHeartbeat, None,
               if white_space_only rest then None else Some (Err ErrInvalidResponse))
   \<and> parseMessage unm (CHR ''o'' # rest)
     = Return (MessageTypeOpen, None,
               if white_space_only rest then None else Some (Err ErrInvalidResponse))
   \<and> ((\<forall>b\<in>set rest. asciiSpace (byte b)) \<longrightarrow> white_space_only rest)
   \<and> ((\<exists>b\<in>set rest. byte b < RuneSelf \<and> \<not> asciiSpace (byte b)) \<longrightarrow> \<not> white_space_only rest)
   \<and> (d0 \<notin> {CHR ''h'', CHR ''a'', CHR ''o'', CHR ''c''} \<longrightarrow>
        (\<exists>e. parseMessage unm (d0 # rest) = Return (MessageTypeUnhandled, None, Some e)
             \<and> e = UnknownMessageType d0 \<and> errors_Is e ErrInvalidResponse))"
proof (intro conjI impI)
  show "parseMessage unm (CHR ''h'' # rest)
     = Return (MessageTypeHeartbeat, None,
               if white_space_only rest then None else Some (Err ErrInvalidResponse))"
    by (simp add: parseMessage_def TrimSpace_empty_iff)
  show "parseMessage unm (CHR ''o'' # rest)
     = Return (MessageTypeOpen, None,
               if white_space_only rest then None else Some (Err ErrInvalidResponse))"
    by (simp add: parseMessage_def TrimSpace_empty_iff)
next
  assume "\<forall>b\<in>set rest. asciiSpace (byte b)"
  then show "white_space_only rest" by (rule white_space_only_ascii_spaces)
next
  assume "\<exists>b\<in>set rest. byte b < RuneSelf \<and> \<not> asciiSpace (byte b)"
  then show "\<not> white_space_only rest"
    using white_space_only_ascii_bytes by blast
next
  assume "d0 \<notin> {CHR ''h'', CHR ''a'', CHR ''o'', CHR ''c''}"
  then show "\<exists>e. parseMessage unm (d0 # rest) = Return (MessageTypeUnhandled, None, Some e)
             \<and> e = UnknownMessageType d0 \<and> errors_Is e ErrInvalidResponse"
    by (simp add: parseMessage_def errors_Is_def)
qed

theorem C5_heartbeat_open_unhandled_witness:
  "parseMessage sample_unmarshal (CHR ''h'' # [CHR 0x20, CHR 0x0A])
     = Return (MessageTypeHeartbeat, None, None)
   \<and> parseMessage sample_unmarshal (CHR ''o'' # [CHR 0x20, CHR 0x0A])
     = Return (MessageTypeOpen, None, None)
   \<and> parseMessage sample_unmarshal (CHR ''h'' # ''ello'')
     = Return (MessageTypeHeartbeat, None, Some (Err ErrInvalidResponse))
   \<and> parseMessage sample_unmarshal (CHR ''x'' # ''ello'')
     = Return (MessageTypeUnhandled, None, Some (UnknownMessageType CHR ''x''))"
proof -
  note a = C5_heartbeat_open_unhandled [of sample_unmarshal "[CHR 0x20, CHR 0x0A]" "CHR ''x''"]
  note b = C5_heartbeat_open_unhandled [of sample_unmarshal "''ello''" "CHR ''x''"]
  from a have ws: "white_space_only [CHR 0x20, CHR 0x0A]"
    by (simp add: asciiSpace_def)
  from b have nws: "\<not> white_space_only ''ello''"
    by (simp add: asciiSpace_def RuneSelf_def)
  from a ws have 1: "parseMessage sample_unmarshal (CHR ''h'' # [CHR 0x20, CHR 0x0A])
     = Return (MessageTypeHeartbeat, None, None)"
    and 2: "parseMessage sample_unmarshal (CHR ''o'' # [CHR 0x20, CHR 0x0A])
     = Return (MessageTypeOpen, None, None)"
    by simp_all
  from b nws have 3: "parseMessage sample_unmarshal (CHR ''h'' # ''ello'')
     = Return (MessageTypeHeartbeat, None, Some (Err ErrInvalidResponse))"
    by simp
  from b have 4: "parseMessage sample_unmarshal (CHR ''x'' # ''ello'')
     = Return (MessageTypeUnhandled, None, Some (UnknownMessageType CHR ''x''))"
    by simp
  from 1 2 3 4 show ?thesis by (intro conjI)
qed

section \<open>Properties of the client\<close>

lemma byte_digit_char: "d < 10 \<Longrightarrow> byte (digit_char d) = 48 + d"
  by (simp add: digit_char_def)

lemma is_digit_digit_char: "d < 10 \<Longrightarrow> is_digit (digit_char d)"
  by (simp add: is_digit_def byte_digit_char)

lemma decimal_value_snoc:
  "decimal_value (xs @ [c]) = 10 * decimal_value xs + (byte c - 48)"
  by (simp add: decimal_value_def)

lemma decimal_value_digits: "decimal_value (digits n) = n"
proof (induction n rule: digits.induct)
  case (1 n)
  show ?case
  proof (cases "n < 10")
    case True
    then show ?thesis
      by (subst digits.simps) (simp add: decimal_value_def byte_digit_char)
  next
    case False
    with 1 have "decimal_value (digits (n div 10)) = n div 10" by simp
    with False show ?thesis
      by (subst digits.simps) (simp add: decimal_value_snoc byte_digit_char)
  qed
qed

lemma digits_all_digit: "c \<in> set (digits n) \<Longrightarrow> is_digit c"
proof (induction n rule: digits.induct)
  case (1 n)
  show ?case
  proof (cases "n < 10")
    case True
    with 1(2) show ?thesis
      by (subst (asm) digits.simps) (simp add: is_digit_digit_char)
  next
    case False
    with 1 show ?thesis
      by (subst (asm) (2) digits.simps) (auto simp add: is_digit_digit_char)
  qed
qed

lemma length_digits_pos: "0 < length (digits n)"
  by (subst digits.simps) simp

lemma length_digits_lt1000:
  assumes "n < 1000"
  shows "length (digits n) \<le> 3"
proof -
  have a: "\<And>m. m < 10 \<Longrightarrow> length (digits m) = 1"
    by (subst digits.simps) simp
  have b: "\<And>m. m < 100 \<Longrightarrow> length (digits m) \<le> 2"
  proof -
    fix m :: nat assume "m < 100"
    then have "m div 10 < 10" by simp
    then show "length (digits m) \<le> 2"
      using a [of "m div 10"] a [of m] by (subst digits.simps) simp
  qed
  from assms have "n div 10 < 100" by simp
  then show ?thesis
    using b [of "n div 10"] a [of n] by (subst digits.simps) simp
qed

lemma length_digits_999: "length (digits 999) = 3"
proof -
  have "digits 9 = [digit_char 9]" by (subst digits.simps) simp
  then have "digits 99 = [digit_char 9, digit_char 9]" by (subst digits.simps) simp
  then have "digits 999 = [digit_char 9, digit_char 9, digit_char 9]" by (subst digits.simps) simp
  then show ?thesis by simp
qed

lemma decimal_value_zeros: "decimal_value (replicate k CHR ''0'' @ s) = decimal_value s"
proof -
  have "foldl (\<lambda>acc c. 10 * acc + (byte c - 48)) 0 (replicate k CHR ''0'') = 0"
    by (induction k) simp_all
  then show ?thesis by (simp add: decimal_value_def)
qed

lemma paddedRandomIntn_999:
  "\<exists>s. paddedRandomIntn src 999 = Return s \<and> length s = 3
       \<and> (\<forall>c\<in>set s. is_digit c) \<and> decimal_value s = src mod 999"
proof -
  define n where "n = src mod 999"
  define ds where "ds = digits n"
  have n: "n < 999" by (simp add: n_def)
  have ri: "int src mod 999 = int n"
    by (simp add: n_def zmod_int)
  have l: "0 < length ds" "length ds \<le> 3"
    using n length_digits_pos length_digits_lt1000 [of n] by (auto simp add: ds_def)
  have d: "\<forall>c\<in>set ds. is_digit c"
    by (auto simp add: ds_def digits_all_digit)
  have z: "is_digit CHR ''0''" by (simp add: is_digit_def)
  have v: "decimal_value ds = n"
    by (simp add: ds_def decimal_value_digits)
  have "paddedRandomIntn src 999 =
          Return (if length ds < 3 then replicate (3 - length ds) CHR ''0'' @ ds else ds)"
    by (simp add: paddedRandomIntn_def rand_Intn_def ri length_digits_999 Itoa_def Let_def ds_def)
  with l d z v show ?thesis
    by (auto simp add: decimal_value_zeros n_def)
qed

lemma ConnectContext_Inl:
  "getServerInfo env (Address c) = Inl x \<Longrightarrow>
   \<exists>e. ConnectContext env c = (Return (Some e), c, [])"
  by (simp add: ConnectContext_def)

lemma ConnectContext_ServerID:
  assumes "getServerInfo env (Address c) = Inr (si, url)"
    and "(if ServerID c = [] then paddedRandomIntn (randSource env) 999
          else Return (ServerID c)) = Return sid"
  shows "ServerID (fst (snd (ConnectContext env c))) = sid"
  unfolding ConnectContext_def Let_def assms
  by (simp split: sum.splits option.splits run.splits prod.splits)

text \<open>
  C10 (as the claim states it, refuted). \<^verbatim>\<open>Connect\<close> is called on a client whose server
  identifier is empty, the info request is refused, and the client is returned
  unchanged: no identifier was generated or stored.
\<close>

theorem C10_no_id_when_info_fails:
  "ServerID (sample_client False) = []
   \<and> ConnectContext refused_env (sample_client False)
       = (Return (Some (CannotConnectInfo ''connection refused'')), sample_client False, [])
   \<and> length (ServerID (sample_client False)) \<noteq> 3"
  by (simp add: ConnectContext_def refused_env_def sample_client_def)

text \<open>
  C10 (amended). When \<^verbatim>\<open>Connect\<close> is called on a client whose server identifier is
  empty and the info request succeeds, the client is left, however the call ends, with
  an identifier of exactly three decimal digits whose value is the number drawn by
  \<^verbatim>\<open>rand.Intn(999)\<close>, hence between 0 and 998; every later \<^verbatim>\<open>Connect\<close> on that client,
  whatever it meets, leaves the identifier as it is. When the info request fails,
  \<^verbatim>\<open>Connect\<close> returns an error and the client is unchanged.
\<close>

theorem C10_default_server_id:
  fixes env :: "('h, 'v, 'x) connect_env"
  shows
  "(getServerInfo env (Address c) = Inl x \<longrightarrow>
      (\<exists>e. ConnectContext env c = (Return (Some e), c, [])))
   \<and> (getServerInfo env (Address c) = Inr (si, url) \<and> ServerID c = [] \<longrightarrow>
      length (ServerID (fst (snd (ConnectContext env c)))) = 3
      \<and> (\<forall>ch\<in>set (ServerID (fst (snd (ConnectContext env c)))). is_digit ch)
      \<and> decimal_value (ServerID (fst (snd (ConnectContext env c)))) = randSource env mod 999
      \<and> decimal_value (ServerID (fst (snd (ConnectContext env c)))) \<le> 998
      \<and> (\<forall>env2 :: ('h, 'v, 'x) connect_env.
            ServerID (fst (snd (ConnectContext env2 (fst (snd (ConnectContext env c))))))
              = ServerID (fst (snd (ConnectContext env c)))))"
proof (intro conjI impI)
  assume "getServerInfo env (Address c) = Inl x"
  then show "\<exists>e. ConnectContext env c = (Return (Some e), c, [])"
    by (rule ConnectContext_Inl)
next
  assume a: "getServerInfo env (Address c) = Inr (si, url) \<and> ServerID c = []"
  define c' where "c' = fst (snd (ConnectContext env c))"
  from paddedRandomIntn_999 [of "randSource env"] obtain s where
    s: "paddedRandomIntn (randSource env) 999 = Return s" "length s = 3"
       "\<forall>ch\<in>set s. is_digit ch" "decimal_value s = randSource env mod 999"
    by blast
  from a s(1) have "(if ServerID c = [] then paddedRandomIntn (randSource env) 999
          else Return (ServerID c)) = Return s"
    by simp
  with a have id: "ServerID c' = s"
    unfolding c'_def by (intro ConnectContext_ServerID) simp_all
  have keep: "ServerID (fst (snd (ConnectContext env2 c'))) = ServerID c'"
    for env2 :: "('h, 'v, 'x) connect_env"
  proof (cases "getServerInfo env2 (Address c')")
    case (Inl y)
    from ConnectContext_Inl [OF this] show ?thesis by auto
  next
    case (Inr p)
    obtain si2 url2 where "p = (si2, url2)" by (cases p)
    with Inr have g2: "getServerInfo env2 (Address c') = Inr (si2, url2)" by simp
    from id s(2) have "ServerID c' \<noteq> []" by auto
    then have "(if ServerID c' = [] then paddedRandomIntn (randSource env2) 999
          else Return (ServerID c')) = Return (ServerID c')"
      by simp
    from ConnectContext_ServerID [OF g2 this] show ?thesis .
  qed
  have le: "decimal_value s \<le> 998"
    using s(4) by simp
  show "length (ServerID (fst (snd (ConnectContext env c)))) = 3"
    using id s(2) by (simp add: c'_def)
  show "\<forall>ch\<in>set (ServerID (fst (snd (ConnectContext env c)))). is_digit ch"
    using id s(3) by (simp add: c'_def)
  show "decimal_value (ServerID (fst (snd (ConnectContext env c)))) = randSource env mod 999"
    using id s(4) by (simp add: c'_def)
  show "decimal_value (ServerID (fst (snd (ConnectContext env c)))) \<le> 998"
    using id le by (simp add: c'_def)
  show "\<forall>env2 :: ('h, 'v, 'x) connect_env.
            ServerID (fst (snd (ConnectContext env2 (fst (snd (ConnectContext env c))))))
              = ServerID (fst (snd (ConnectContext env c)))"
    using keep by (simp add: c'_def)
qed

text \<open>The theorem at the sample server, where the generator yields 1041 and the stored
  identifier has the value 42, and at the server that refuses the info request.\<close>

theorem C10_default_server_id_witness:
  "getServerInfo (sample_env ''o'' ''o'') (Address (sample_client False))
     = Inr (sample_info, sample_url)
   \<and> ServerID (sample_client False) = []
   \<and> length (ServerID (fst (snd (ConnectContext (sample_env ''o'' ''o'') (sample_client False))))) = 3
   \<and> decimal_value
         (ServerID (fst (snd (ConnectContext (sample_env ''o'' ''o'') (sample_client False))))) = 42
   \<and> getServerInfo refused_env (Address (sample_client False)) = Inl ''connection refused''
   \<and> (\<exists>e. ConnectContext refused_env (sample_client False)
          = (Return (Some e), sample_client False, []))"
proof -
  have h: "getServerInfo (sample_env ''o'' ''o'') (Address (sample_client False))
             = Inr (sample_info, sample_url) \<and> ServerID (sample_client False) = []"
    by (simp add: sample_env_def sample_client_def)
  have r: "randSource (sample_env ''o'' ''o'') mod 999 = 42"
    by (simp add: sample_env_def)
  have g: "getServerInfo refused_env (Address (sample_client False)) = Inl ''connection refused''"
    by (simp add: refused_env_def)
  from C10_default_server_id [of "sample_env ''o'' ''o''" "sample_client False" undefined
      sample_info sample_url] h r
    C10_default_server_id [of refused_env "sample_client False" "''connection refused''"] g
  show ?thesis by simp
qed

lemma ConnectContext_dials:
  assumes g: "getServerInfo env (Address c) = Inr (si, url)"
    and sidv: "(if ServerID c = [] then paddedRandomIntn (randSource env) 999
                else Return (ServerID c)) = Return sid"
    and sessv: "(if SessionID c = [] then newUUID env else Return (SessionID c)) = Return sess"
  shows "ConnectContext env c =
    (let c2 = c\<lparr>ServerID := sid, SessionID := sess\<rparr> in
     if \<not> NoWebsocket c \<and> WebSocket si then
       (case dial_ws env url sid sess of
          Panic \<Rightarrow> (Panic, c2, [Socket])
        | Return (Inr (h, st)) \<Rightarrow>
            (Return None, c2\<lparr>conn := Some (WsConn h st), info := Some si\<rparr>, [Socket])
        | Return (Inl e1) \<Rightarrow>
            (case dial_xhr env url sid sess of
               Panic \<Rightarrow> (Panic, c2, [Socket, Polling])
             | Return (Inr ((raddr, waddr), st)) \<Rightarrow>
                 (Return None, c2\<lparr>conn := Some (XhrConn raddr waddr st), info := Some si\<rparr>,
                  [Socket, Polling])
             | Return (Inl e2) \<Rightarrow>
                 (Return (Some (CannotConnectWsXhr e1 e2)), c2, [Socket, Polling])))
     else
       (case dial_xhr env url sid sess of
          Panic \<Rightarrow> (Panic, c2, [Polling])
        | Return (Inr ((raddr, waddr), st)) \<Rightarrow>
            (Return None, c2\<lparr>conn := Some (XhrConn raddr waddr st), info := Some si\<rparr>,
             [Polling])
        | Return (Inl e2) \<Rightarrow> (Return (Some (CannotConnectXhr e2)), c2, [Polling])))"
proof -
  have s2: "SessionID c = [] \<Longrightarrow> newUUID env = Return sess"
    and s3: "SessionID c \<noteq> [] \<Longrightarrow> SessionID c = sess"
    using sessv by simp_all
  consider (wp) "dial_ws env url sid sess = Panic"
    | (wl) e1 where "dial_ws env url sid sess = Return (Inl e1)"
    | (wr) h st where "dial_ws env url sid sess = Return (Inr (h, st))"
  proof (cases "dial_ws env url sid sess")
    case Panic
    then show ?thesis by (rule wp)
  next
    case (Return r)
    then show ?thesis by (cases r) (auto intro: wl wr)
  qed
  note w = this
  consider (xp) "dial_xhr env url sid sess = Panic"
    | (xl) e2 where "dial_xhr env url sid sess = Return (Inl e2)"
    | (xr) raddr waddr st where "dial_xhr env url sid sess = Return (Inr ((raddr, waddr), st))"
  proof (cases "dial_xhr env url sid sess")
    case Panic
    then show ?thesis by (rule xp)
  next
    case (Return r)
    then show ?thesis by (cases r) (auto intro: xl xr)
  qed
  note x = this
  show ?thesis
  proof (cases "\<not> NoWebsocket c \<and> WebSocket si")
    case on: True
    from w show ?thesis
    proof cases
      case wp
      with on s2 s3 show ?thesis
        unfolding ConnectContext_def g sidv
        by (cases "SessionID c = []") (simp_all add: Let_def)
    next
      case wr
      with on s2 s3 show ?thesis
        unfolding ConnectContext_def g sidv
        by (cases "SessionID c = []") (simp_all add: Let_def)
    next
      case wl
      from x show ?thesis
      proof cases
        case xp
        with on wl s2 s3 show ?thesis
          unfolding ConnectContext_def g sidv
          by (cases "SessionID c = []") (simp_all add: Let_def)
      next
        case xl
        with on wl s2 s3 show ?thesis
          unfolding ConnectContext_def g sidv
          by (cases "SessionID c = []") (simp_all add: Let_def)
      next
        case xr
        with on wl s2 s3 show ?thesis
          unfolding ConnectContext_def g sidv
          by (cases "SessionID c = []") (simp_all add: Let_def)
      qed
    qed
  next
    case False
    then have off: "(\<not> NoWebsocket c \<and> WebSocket si) = False" by simp
    from x show ?thesis
    proof cases
      case xp
      with s2 s3 show ?thesis
        unfolding ConnectContext_def g sidv
        by (cases "SessionID c = []") (simp_all add: Let_def off)
    next
      case xl
      with s2 s3 show ?thesis
        unfolding ConnectContext_def g sidv
        by (cases "SessionID c = []") (simp_all add: Let_def off)
    next
      case xr
      with s2 s3 show ?thesis
        unfolding ConnectContext_def g sidv
        by (cases "SessionID c = []") (simp_all add: Let_def off)
    qed
  qed
qed

lemma TrimSpace_Nil: "TrimSpace [] = []"
  by (simp add: TrimSpace_def TrimSpace_left.simps TrimSpace_right.simps)

text \<open>
  C3 (the code at the failing input). The server reports websocket support and sends an
  empty first websocket frame; the body of its first xhr response is a valid open
  frame. \<^verbatim>\<open>Connect\<close> dials the Socket transport and panics in the dial: Polling, whose
  dial would have succeeded with the identifiers \<^verbatim>\<open>Connect\<close> stored, is never attempted
  and no error is returned.
\<close>

theorem C3_connect_panics_on_empty_first_frame:
  "fst (ConnectContext (sample_env [] ''o'') (sample_client False)) = Panic
   \<and> snd (snd (ConnectContext (sample_env [] ''o'') (sample_client False))) = [Socket]
   \<and> (case dial_xhr (sample_env [] ''o'') sample_url
            (ServerID (fst (snd (ConnectContext (sample_env [] ''o'') (sample_client False)))))
            (SessionID (fst (snd (ConnectContext (sample_env [] ''o'') (sample_client False)))))
       of Return (Inr k) \<Rightarrow> True | _ \<Rightarrow> False)"
proof -
  let ?E = "sample_env [] ''o''" and ?C = "sample_client False"
  let ?uuid = "''6ba7b810-9dad-41d1-80b4-00c04fd430c8''"
  from paddedRandomIntn_999 [of "randSource ?E"] obtain sid where
    sid: "paddedRandomIntn (randSource ?E) 999 = Return sid" "length sid = 3"
    by blast
  then have ne: "sid \<noteq> []" by auto
  have g: "getServerInfo ?E (Address ?C) = Inr (sample_info, sample_url)"
    by (simp add: sample_env_def)
  have sidv: "(if ServerID ?C = [] then paddedRandomIntn (randSource ?E) 999
                else Return (ServerID ?C)) = Return sid"
    using sid by (simp add: sample_client_def)
  have sessv: "(if SessionID ?C = [] then newUUID ?E else Return (SessionID ?C)) = Return ?uuid"
    by (simp add: sample_client_def sample_env_def)
  have on: "\<not> NoWebsocket ?C \<and> WebSocket sample_info"
    by (simp add: sample_client_def sample_info_def)
  have ws: "dial_ws ?E sample_url sid ?uuid = Panic"
    using ne
    by (simp add: dial_ws_def WSDialer_DialContext_def parseTransportAddr_def sample_env_def
        sample_url_String_def sample_url_Parse_def sample_url_def ws_scheme_def
        parseMessage_def Let_def)
  have xhr: "\<exists>k. dial_xhr ?E sample_url sid ?uuid = Return (Inr k)"
    using ne
    by (simp add: dial_xhr_def XHRDialer_DialContext_def parseTransportAddr_def sample_env_def
        sample_url_String_def sample_url_Parse_def sample_url_def
        parseMessage_def TrimSpace_Nil Let_def)
  have cc: "ConnectContext ?E ?C = (Panic, ?C\<lparr>ServerID := sid, SessionID := ?uuid\<rparr>, [Socket])"
    unfolding ConnectContext_dials [OF g sidv sessv] using on ws by (simp add: Let_def)
  from xhr obtain k where k: "dial_xhr ?E sample_url sid ?uuid = Return (Inr k)" by blast
  show ?thesis
    by (simp add: cc k)
qed

section \<open>Properties of the connections and the dialers\<close>

text \<open>
  C2 (as the claim states it, refuted). A message is waiting in the inbound channel when
  \<^verbatim>\<open>Close\<close> is called. The next \<^verbatim>\<open>ReadMsg\<close> finds both cases of its \<^verbatim>\<open>select\<close> ready and
  can return the message with no error.
\<close>

theorem C2_read_after_close_may_return_message:
  "ReadMsg (snd (xhrConn_Close queued_conn))
     = [((Some ''hello world!'', None), \<lparr>inq = [], cancelled = True\<rparr>),
        ((None, Some (Err ErrClosedConnection)),
           \<lparr>inq = [Message ''hello world!''], cancelled = True\<rparr>)]"
  by (simp add: ReadMsg_def xhrConn_Close_def queued_conn_def)

text \<open>
  C2 (amended). \<^verbatim>\<open>Close\<close> leaves the connection cancelled on both transports, whatever
  the underlying writes and closes return. On a cancelled connection every \<^verbatim>\<open>WriteMsg\<close>
  returns the closed-connection error, and \<^verbatim>\<open>Close\<close> returns no error and changes
  nothing. \<^verbatim>\<open>ReadMsg\<close> never blocks and can always return the closed-connection error;
  it returns nothing else when the inbound channel is empty, and otherwise it can also
  return the oldest value waiting there (a message, or the error the read loop left).
  The connection stays cancelled after each of these calls.
\<close>

theorem C2_after_close:
  "cancelled (snd (wsConn_Close isClosed wc cl c0))
   \<and> cancelled (snd (xhrConn_Close c0))
   \<and> (cancelled c \<longrightarrow>
        wsConn_WriteMsg isClosed write ce c data = (Some (Err ErrClosedConnection), c)
      \<and> xhrConn_WriteMsg ice post c data = (Some (Err ErrClosedConnection), c)
      \<and> wsConn_Close isClosed wc cl c = (None, c)
      \<and> xhrConn_Close c = (None, c)
      \<and> ((None, Some (Err ErrClosedConnection)), c) \<in> set (ReadMsg c)
      \<and> (inq c = [] \<longrightarrow> ReadMsg c = [((None, Some (Err ErrClosedConnection)), c)])
      \<and> (\<forall>r c'. (r, c') \<in> set (ReadMsg c) \<longrightarrow>
            cancelled c'
            \<and> (r = (None, Some (Err ErrClosedConnection)) \<and> c' = c
               \<or> (\<exists>v rest. inq c = v # rest \<and> c' = c\<lparr>inq := rest\<rparr>
                     \<and> r = (case v of Message m \<Rightarrow> (Some m, None)
                                    | Failure e \<Rightarrow> (None, Some e))))))"
proof (intro conjI impI)
  show "cancelled (snd (wsConn_Close isClosed wc cl c0))"
    by (simp add: wsConn_Close_def Let_def split: option.splits)
  show "cancelled (snd (xhrConn_Close c0))"
    by (simp add: xhrConn_Close_def)
next
  assume c: "cancelled c"
  have rd_nil: "ReadMsg c = [((None, Some (Err ErrClosedConnection)), c)]" if "inq c = []"
    using c that by (simp add: ReadMsg_def)
  have rd_cons: "ReadMsg c =
             [((case v of Message m \<Rightarrow> (Some m, None) | Failure e \<Rightarrow> (None, Some e)),
               c\<lparr>inq := rest\<rparr>),
              ((None, Some (Err ErrClosedConnection)), c)]"
    if "inq c = v # rest" for v rest
    using c that by (cases v) (simp_all add: ReadMsg_def)
  show "wsConn_WriteMsg isClosed write ce c data = (Some (Err ErrClosedConnection), c)"
    using c by (simp add: wsConn_WriteMsg_def)
  show "xhrConn_WriteMsg ice post c data = (Some (Err ErrClosedConnection), c)"
    using c by (simp add: xhrConn_WriteMsg_def)
  show "wsConn_Close isClosed wc cl c = (None, c)"
    using c by (simp add: wsConn_Close_def)
  show "xhrConn_Close c = (None, c)"
    using c by (simp add: xhrConn_Close_def)
  show "((None, Some (Err ErrClosedConnection)), c) \<in> set (ReadMsg c)"
  proof (cases "inq c")
    case Nil
    from rd_nil [OF Nil] show ?thesis by simp
  next
    case (Cons v rest)
    from rd_cons [OF Cons] show ?thesis by simp
  qed
  assume "inq c = []"
  then show "ReadMsg c = [((None, Some (Err ErrClosedConnection)), c)]"
    by (rule rd_nil)
next
  assume c: "cancelled c"
  show "\<forall>r c'. (r, c') \<in> set (ReadMsg c) \<longrightarrow>
            cancelled c'
            \<and> (r = (None, Some (Err ErrClosedConnection)) \<and> c' = c
               \<or> (\<exists>v rest. inq c = v # rest \<and> c' = c\<lparr>inq := rest\<rparr>
                     \<and> r = (case v of Message m \<Rightarrow> (Some m, None)
                                    | Failure e \<Rightarrow> (None, Some e))))"
  proof (intro allI impI)
    fix r c'
    assume m: "(r, c') \<in> set (ReadMsg c)"
    show "cancelled c'
            \<and> (r = (None, Some (Err ErrClosedConnection)) \<and> c' = c
               \<or> (\<exists>v rest. inq c = v # rest \<and> c' = c\<lparr>inq := rest\<rparr>
                     \<and> r = (case v of Message m \<Rightarrow> (Some m, None)
                                    | Failure e \<Rightarrow> (None, Some e))))"
    proof (cases "inq c")
      case Nil
      with c m have "r = (None, Some (Err ErrClosedConnection)) \<and> c' = c"
        by (simp add: ReadMsg_def)
      with c show ?thesis by simp
    next
      case (Cons v rest)
      have "ReadMsg c =
             [((case v of Message m \<Rightarrow> (Some m, None) | Failure e \<Rightarrow> (None, Some e)),
               c\<lparr>inq := rest\<rparr>),
              ((None, Some (Err ErrClosedConnection)), c)]"
        using c Cons by (cases v) (simp_all add: ReadMsg_def)
      with m have d: "r = (case v of Message m \<Rightarrow> (Some m, None) | Failure e \<Rightarrow> (None, Some e))
                      \<and> c' = c\<lparr>inq := rest\<rparr>
                    \<or> r = (None, Some (Err ErrClosedConnection)) \<and> c' = c"
        by simp
      then show ?thesis
      proof
        assume "r = (case v of Message m \<Rightarrow> (Some m, None) | Failure e \<Rightarrow> (None, Some e))
                      \<and> c' = c\<lparr>inq := rest\<rparr>"
        with c Cons show ?thesis by simp
      next
        assume "r = (None, Some (Err ErrClosedConnection)) \<and> c' = c"
        with c show ?thesis by simp
      qed
    qed
  qed
qed

theorem C2_after_close_witness:
  "cancelled closed_conn \<and> inq closed_conn = []
   \<and> ReadMsg closed_conn = [((None, Some (Err ErrClosedConnection)), closed_conn)]
   \<and> xhrConn_WriteMsg (\<lambda>e. False) (\<lambda>b. Inr 204) closed_conn [''m1'']
       = (Some (Err ErrClosedConnection), closed_conn)
   \<and> xhrConn_Close closed_conn = (None, closed_conn)"
proof -
  have h: "cancelled closed_conn" "inq closed_conn = []"
    by (simp_all add: closed_conn_def)
  note t = C2_after_close [of "\<lambda>e. False" None None closed_conn closed_conn "\<lambda>b. None" False
      "[''m1'']" "\<lambda>e. False" "\<lambda>b. Inr 204", THEN conjunct2, THEN conjunct2, THEN mp, OF h(1)]
  from t have w: "xhrConn_WriteMsg (\<lambda>e. False) (\<lambda>b. Inr 204) closed_conn [''m1'']
       = (Some (Err ErrClosedConnection), closed_conn)"
    by (elim conjE)
  from t have cl: "xhrConn_Close closed_conn = (None, closed_conn)"
    by (elim conjE)
  from t have "inq closed_conn = [] \<longrightarrow>
      ReadMsg closed_conn = [((None, Some (Err ErrClosedConnection)), closed_conn)]"
    by (elim conjE)
  with h(2) have rd: "ReadMsg closed_conn = [((None, Some (Err ErrClosedConnection)), closed_conn)]"
    by (rule rev_mp)
  from h w cl rd show ?thesis by (intro conjI)
qed

text \<open>
  C6 (the code at the failing input). The server's first frame is empty: a websocket
  text message of no bytes, or an initial xhr response with an empty body. Both dialers
  hand it to \<^verbatim>\<open>parseMessage\<close>, which panics; neither returns the invalid-response
  error.
\<close>

theorem C6_dial_panics_on_empty_first_frame:
  "WSDialer_DialContext sample_unmarshal (\<lambda>a. Inr sample_url) (\<lambda>t. Inr (0::nat)) (\<lambda>h. Inr [])
     ''http://127.0.0.1:8008/sockjs'' ''042'' ''6ba7b810'' = Panic
   \<and> XHRDialer_DialContext sample_unmarshal (\<lambda>a. Inr sample_url) (\<lambda>t. Inr (Inr []))
     ''http://127.0.0.1:8008/sockjs'' ''042'' ''6ba7b810'' = Panic"
  by (simp add: WSDialer_DialContext_def XHRDialer_DialContext_def parseTransportAddr_def
      parseMessage_def Let_def)

theorem C6_dial_panics_witness:
  "WSDialer_DialContext sample_unmarshal (\<lambda>a. Inr sample_url) (\<lambda>t. Inr (0::nat)) (\<lambda>h. Inr [])
     ''http://127.0.0.1:8008/sockjs'' ''042'' ''6ba7b810'' \<noteq> Return (Inl OpeningSession)
   \<and> XHRDialer_DialContext sample_unmarshal (\<lambda>a. Inr sample_url) (\<lambda>t. Inr (Inr []))
     ''http://127.0.0.1:8008/sockjs'' ''042'' ''6ba7b810'' \<noteq> Return (Inl OpeningSession)"
  using C6_dial_panics_on_empty_first_frame by simp

end
